theory Spec2Isabelle
  imports Complex_Main
begin

section \<open>Numbers of the Dart program\<close>

text \<open>
  The storefront client (\<^verbatim>\<open>frontend/lib/services/api_service.dart\<close>) keeps prices
  as Dart \<^verbatim>\<open>double\<close> values and quantities as Dart \<^verbatim>\<open>int\<close> values.

  A \<^verbatim>\<open>double\<close> is an IEEE 754 binary64 number. A finite one is modelled by the
  rational it denotes; every arithmetic operation computes the exact rational result and
  rounds it to the nearest binary64 number, ties to the even significand (\<open>rnd\<close>).
  The two infinities and NaN are separate values. The sign of a zero is not tracked:
  no operation modelled below divides by a zero or prints one.
\<close>

datatype double = Finite rat | PosInfinity | NegInfinity | NaN

fun bitlen :: "nat \<Rightarrow> nat" where
  "bitlen n = (if n = 0 then 0 else Suc (bitlen (n div 2)))"

declare bitlen.simps [simp del]

definition pow2 :: "int \<Rightarrow> rat" where
  "pow2 e = 2 powi e"

text \<open>\<open>ilog2 q\<close> is the exponent \<open>e\<close> with \<open>2^e \<le> q < 2^(e+1)\<close>, for \<open>q > 0\<close>.\<close>

definition ilog2 :: "rat \<Rightarrow> int" where
  "ilog2 q =
     (let (a, b) = quotient_of q;
          k = int (bitlen (nat a)) - int (bitlen (nat b))
      in if pow2 k \<le> q then k else k - 1)"

definition round_half_even :: "rat \<Rightarrow> int" where
  "round_half_even q =
     (let f = \<lfloor>q\<rfloor>; d = q - of_int f
      in if d < 1 / 2 then f
         else if 1 / 2 < d then f + 1
         else if even f then f else f + 1)"

text \<open>
  Rounding to binary64: 53 significant bits, the smallest unit \<open>2^-1074\<close> (so the
  subnormal range loses precision as the format does), overflow to an infinity from
  \<open>2^1024\<close> on.
\<close>

definition rnd :: "rat \<Rightarrow> double" where
  "rnd q =
     (if q = 0 then Finite 0
      else
        let e = max (ilog2 \<bar>q\<bar> - 52) (- 1074);
            m = round_half_even (\<bar>q\<bar> / pow2 e);
            v = of_int m * pow2 e
        in if pow2 1024 \<le> v then (if 0 < q then PosInfinity else NegInfinity)
           else Finite (if 0 < q then v else - v))"

fun dneg :: "double \<Rightarrow> double" where
  "dneg (Finite a) = Finite (- a)"
| "dneg PosInfinity = NegInfinity"
| "dneg NegInfinity = PosInfinity"
| "dneg NaN = NaN"

fun dadd :: "double \<Rightarrow> double \<Rightarrow> double" where
  "dadd (Finite a) (Finite b) = rnd (a + b)"
| "dadd NaN _ = NaN"
| "dadd _ NaN = NaN"
| "dadd PosInfinity NegInfinity = NaN"
| "dadd NegInfinity PosInfinity = NaN"
| "dadd PosInfinity _ = PosInfinity"
| "dadd NegInfinity _ = NegInfinity"
| "dadd _ PosInfinity = PosInfinity"
| "dadd _ NegInfinity = NegInfinity"

definition dsub :: "double \<Rightarrow> double \<Rightarrow> double" where
  "dsub a b = dadd a (dneg b)"

text \<open>The sign of a value as \<open>-1\<close>, \<open>0\<close> or \<open>1\<close>; NaN has none.\<close>

fun dsign :: "double \<Rightarrow> int" where
  "dsign (Finite a) = (if a < 0 then - 1 else if a = 0 then 0 else 1)"
| "dsign PosInfinity = 1"
| "dsign NegInfinity = - 1"
| "dsign NaN = 0"

definition signed_infinity :: "int \<Rightarrow> double" where
  "signed_infinity s = (if s = 0 then NaN else if 0 < s then PosInfinity else NegInfinity)"

fun dmul :: "double \<Rightarrow> double \<Rightarrow> double" where
  "dmul (Finite a) (Finite b) = rnd (a * b)"
| "dmul NaN _ = NaN"
| "dmul _ NaN = NaN"
| "dmul a b = signed_infinity (dsign a * dsign b)"

text \<open>
  Division. The program divides by the literal \<^verbatim>\<open>100\<close> only; a zero divisor is given
  the sign \<open>+\<close>.
\<close>

fun ddiv :: "double \<Rightarrow> double \<Rightarrow> double" where
  "ddiv NaN _ = NaN"
| "ddiv _ NaN = NaN"
| "ddiv (Finite a) (Finite b) = (if b = 0 then signed_infinity (dsign (Finite a)) else rnd (a / b))"
| "ddiv (Finite a) _ = Finite 0"
| "ddiv a (Finite b) = signed_infinity (dsign a * (if b < 0 then - 1 else 1))"
| "ddiv _ _ = NaN"

text \<open>\<^verbatim>\<open>a > b\<close> on doubles: false as soon as one side is NaN.\<close>

fun dgt :: "double \<Rightarrow> double \<Rightarrow> bool" where
  "dgt NaN _ = False"
| "dgt _ NaN = False"
| "dgt (Finite a) (Finite b) = (b < a)"
| "dgt PosInfinity b = (b \<noteq> PosInfinity)"
| "dgt NegInfinity _ = False"
| "dgt (Finite a) PosInfinity = False"
| "dgt (Finite a) NegInfinity = True"

text \<open>
  A Dart \<^verbatim>\<open>int\<close> is a 64-bit two's complement integer on the platforms the generated
  application is built for; \<open>wrap64\<close> is the wrap-around of its arithmetic.
\<close>

definition wrap64 :: "int \<Rightarrow> int" where
  "wrap64 x = (x + 2 ^ 63) mod 2 ^ 64 - 2 ^ 63"

definition int_toDouble :: "int \<Rightarrow> double" where
  "int_toDouble n = rnd (of_int n)"

section \<open>Prices, the cart and the wishlist\<close>

text \<open>
  Product identifiers, names and image references are compared for equality only and are
  modelled as \<open>string\<close>. An exception that leaves a method is a value of \<open>error\<close>.
\<close>

datatype error =
    StateError_NoElement  \<comment> \<open>\<^verbatim>\<open>firstWhere\<close> without \<^verbatim>\<open>orElse\<close> found no element\<close>
  | TypeError             \<comment> \<open>a dynamic value has not the type the operation needs\<close>
  | FormatException       \<comment> \<open>a text is not in the expected format\<close>
  | NoSuchMethodError     \<comment> \<open>\<^verbatim>\<open>[]\<close> on \<^verbatim>\<open>null\<close>, a number or a boolean\<close>
  | NetworkError          \<comment> \<open>\<^verbatim>\<open>http.get\<close> throws: no response\<close>
  | Exception_InvalidResponseFormat  \<comment> \<open>\<^verbatim>\<open>throw Exception('Invalid response format')\<close>\<close>
  | Exception_HTTP int    \<comment> \<open>\<^verbatim>\<open>throw Exception('HTTP ${response.statusCode}')\<close>\<close>

text \<open>\<^verbatim>\<open>PriceUtils.calculateTax\<close>: \<^verbatim>\<open>subtotal * (taxRate / 100)\<close>.\<close>

definition calculateTax :: "double \<Rightarrow> double \<Rightarrow> double" where
  "calculateTax subtotal taxRate = dmul subtotal (ddiv taxRate (Finite 100))"

text \<open>
  \<^verbatim>\<open>class CartItem\<close>: the fields \<^verbatim>\<open>id\<close> and \<^verbatim>\<open>image\<close> carry a suffix. Only
  \<^verbatim>\<open>quantity\<close> is mutable.
\<close>

record cart_item =
  id_c :: string
  name :: string
  price :: double
  discountPrice :: double
  quantity :: int
  image_c :: "string option"

definition effectivePrice :: "cart_item \<Rightarrow> double" where
  "effectivePrice i = (if dgt (discountPrice i) (Finite 0) then discountPrice i else price i)"

definition totalPrice :: "cart_item \<Rightarrow> double" where
  "totalPrice i = dmul (effectivePrice i) (int_toDouble (quantity i))"

text \<open>
  \<^verbatim>\<open>class CartManager\<close>: the private list \<^verbatim>\<open>_items\<close> and the two percentages.
  \<^verbatim>\<open>notifyListeners()\<close> only schedules a rebuild of the page and has no part in the state.
\<close>

record cart_manager =
  items :: "cart_item list"
  gstPercentage :: double
  discountPercentage :: double

definition CartManager :: cart_manager where
  "CartManager = \<lparr>items = [], gstPercentage = Finite 18, discountPercentage = Finite 0\<rparr>"

text \<open>\<^verbatim>\<open>List.indexWhere\<close>: the first position whose element passes the test, \<open>-1\<close> if none.\<close>

fun indexWhere :: "('a \<Rightarrow> bool) \<Rightarrow> 'a list \<Rightarrow> int" where
  "indexWhere p [] = - 1"
| "indexWhere p (x # xs) =
     (if p x then 0 else (let i = indexWhere p xs in if i < 0 then - 1 else i + 1))"

text \<open>
  \<^verbatim>\<open>Iterable.firstWhere\<close> without \<^verbatim>\<open>orElse\<close>: the first element that passes the
  test, a \<^verbatim>\<open>StateError\<close> if there is none. The element is an object of the list, and
  the caller assigns to a field of it; the model returns its position.
\<close>

fun firstWhere :: "('a \<Rightarrow> bool) \<Rightarrow> 'a list \<Rightarrow> error + nat" where
  "firstWhere p [] = Inl StateError_NoElement"
| "firstWhere p (x # xs) =
     (if p x then Inr 0
      else (case firstWhere p xs of Inl e \<Rightarrow> Inl e | Inr k \<Rightarrow> Inr (Suc k)))"

definition addItem :: "cart_manager \<Rightarrow> cart_item \<Rightarrow> cart_manager" where
  "addItem cm item =
     (let existingIndex = indexWhere (\<lambda>i. id_c i = id_c item) (items cm)
      in if 0 \<le> existingIndex
         then cm\<lparr>items := (items cm)[nat existingIndex :=
                (items cm ! nat existingIndex)\<lparr>quantity :=
                   wrap64 (quantity (items cm ! nat existingIndex) + quantity item)\<rparr>]\<rparr>
         else cm\<lparr>items := items cm @ [item]\<rparr>)"

definition removeItem :: "cart_manager \<Rightarrow> string \<Rightarrow> cart_manager" where
  "removeItem cm i = cm\<lparr>items := filter (\<lambda>item. id_c item \<noteq> i) (items cm)\<rparr>"

definition updateQuantity :: "cart_manager \<Rightarrow> string \<Rightarrow> int \<Rightarrow> error + cart_manager" where
  "updateQuantity cm i q =
     (case firstWhere (\<lambda>item. id_c item = i) (items cm) of
        Inl e \<Rightarrow> Inl e
      | Inr k \<Rightarrow> Inr (cm\<lparr>items := (items cm)[k := (items cm ! k)\<lparr>quantity := q\<rparr>]\<rparr>))"

definition clear :: "cart_manager \<Rightarrow> cart_manager" where
  "clear cm = cm\<lparr>items := []\<rparr>"

definition clearCart :: "cart_manager \<Rightarrow> cart_manager" where
  "clearCart cm = clear cm"

definition subtotal :: "cart_manager \<Rightarrow> double" where
  "subtotal cm = foldl (\<lambda>sum item. dadd sum (totalPrice item)) (Finite 0) (items cm)"

definition totalDiscount :: "cart_manager \<Rightarrow> double" where
  "totalDiscount cm =
     foldl (\<lambda>sum item.
        dadd sum (dmul (dsub (price item) (effectivePrice item)) (int_toDouble (quantity item))))
       (Finite 0) (items cm)"

definition gstAmount :: "cart_manager \<Rightarrow> double" where
  "gstAmount cm = calculateTax (subtotal cm) (gstPercentage cm)"

definition finalTotal :: "cart_manager \<Rightarrow> double" where
  "finalTotal cm = dadd (subtotal cm) (gstAmount cm)"

text \<open>
  Modelled from the spec: the getter \<^verbatim>\<open>CartManager.totalQuantity\<close>, which the cart page
  reads, is not declared in the class; it is the spec's aggregate quantity across all lines.
\<close>

definition totalQuantity :: "cart_manager \<Rightarrow> int" where
  "totalQuantity cm = sum_list (map quantity (items cm))"

text \<open>\<^verbatim>\<open>class WishlistItem\<close> and \<^verbatim>\<open>class WishlistManager\<close>; the fields carry the suffix \<open>_w\<close>.\<close>

record wishlist_item =
  id_w :: string
  name_w :: string
  price_w :: double
  discountPrice_w :: double
  image_w :: "string option"
  currencySymbol_w :: string

type_synonym wishlist_manager = "wishlist_item list"

definition isInWishlist :: "wishlist_manager \<Rightarrow> string \<Rightarrow> bool" where
  "isInWishlist w i = list_ex (\<lambda>item. id_w item = i) w"

definition addItem_w :: "wishlist_manager \<Rightarrow> wishlist_item \<Rightarrow> wishlist_manager" where
  "addItem_w w item = (if \<not> list_ex (\<lambda>i. id_w i = id_w item) w then w @ [item] else w)"

definition removeItem_w :: "wishlist_manager \<Rightarrow> string \<Rightarrow> wishlist_manager" where
  "removeItem_w w i = filter (\<lambda>item. id_w item \<noteq> i) w"

definition clear_w :: "wishlist_manager \<Rightarrow> wishlist_manager" where
  "clear_w w = []"

definition clearWishlist :: "wishlist_manager \<Rightarrow> wishlist_manager" where
  "clearWishlist w = clear_w w"

text \<open>
  Modelled from the spec: \<^verbatim>\<open>toggleWishlist\<close> has no counterpart in the client, which
  offers \<^verbatim>\<open>addItem\<close>, \<^verbatim>\<open>removeItem\<close> and \<^verbatim>\<open>isInWishlist\<close> only. It is the
  spec's operation "add if absent, remove if present", put together from these three.
\<close>

definition toggleWishlist :: "wishlist_manager \<Rightarrow> wishlist_item \<Rightarrow> wishlist_manager" where
  "toggleWishlist w item =
     (if isInWishlist w (id_w item) then removeItem_w w (id_w item) else addItem_w w item)"

text \<open>The wishlists the operations can build from the empty one.\<close>

inductive wishlist_reachable :: "wishlist_manager \<Rightarrow> bool" where
  init: "wishlist_reachable []"
| add: "wishlist_reachable w \<Longrightarrow> wishlist_reachable (addItem_w w item)"
| remove: "wishlist_reachable w \<Longrightarrow> wishlist_reachable (removeItem_w w i)"
| clear: "wishlist_reachable w \<Longrightarrow> wishlist_reachable (clear_w w)"
| toggle: "wishlist_reachable w \<Longrightarrow> wishlist_reachable (toggleWishlist w item)"

section \<open>Decoded JSON and the Dart library\<close>

text \<open>
  A value of static type \<^verbatim>\<open>dynamic\<close> that comes out of \<^verbatim>\<open>json.decode\<close> or off the
  socket. A decoded object is kept as the list of its entries.
\<close>

datatype json =
    JNull | JBool bool | JInt int | JDouble double | JString string
  | JList "json list" | JMap "(string \<times> json) list"

type_synonym obj = "(string \<times> json) list"

text \<open>\<^verbatim>\<open>m[k]\<close> on a \<^verbatim>\<open>Map\<close>: \<^verbatim>\<open>null\<close> for a missing key.\<close>

definition lookup :: "obj \<Rightarrow> string \<Rightarrow> json" where
  "lookup m k = (case map_of m k of None \<Rightarrow> JNull | Some v \<Rightarrow> v)"

text \<open>\<^verbatim>\<open>d[k]\<close> with a string key on a \<^verbatim>\<open>dynamic\<close> receiver: only a map answers.\<close>

fun dyn_index :: "json \<Rightarrow> string \<Rightarrow> error + json" where
  "dyn_index (JMap m) k = Inr (lookup m k)"
| "dyn_index (JList _) k = Inl TypeError"
| "dyn_index (JString _) k = Inl TypeError"
| "dyn_index _ k = Inl NoSuchMethodError"

definition bind_e :: "error + 'a \<Rightarrow> ('a \<Rightarrow> error + 'b) \<Rightarrow> error + 'b" where
  "bind_e m f = (case m of Inl e \<Rightarrow> Inl e | Inr x \<Rightarrow> f x)"

text \<open>\<^verbatim>\<open>List<Map<String, dynamic>>.from(xs)\<close> on a list: every element has to be a map.\<close>

fun maps_from :: "json list \<Rightarrow> error + obj list" where
  "maps_from [] = Inr []"
| "maps_from (JMap m # xs) = bind_e (maps_from xs) (\<lambda>ms. Inr (m # ms))"
| "maps_from (_ # xs) = Inl TypeError"

text \<open>The same constructor on a \<^verbatim>\<open>dynamic\<close> argument, which has to be iterable.\<close>

fun maps_from_dyn :: "json \<Rightarrow> error + obj list" where
  "maps_from_dyn (JList xs) = maps_from xs"
| "maps_from_dyn _ = Inl TypeError"

text \<open>
  What the program takes from the Dart library and the model leaves open:
  \<^item> \<open>render\<close>: \<^verbatim>\<open>toString()\<close> of a decoded value that is not a string;
  \<^item> \<open>list_sort\<close>: \<^verbatim>\<open>List.sort\<close> with a comparator;
  \<^item> \<open>int_parse\<close>: \<^verbatim>\<open>int.parse\<close>, \<open>None\<close> where it throws a \<^verbatim>\<open>FormatException\<close>.
  Texts other than prices are byte strings, and \<^verbatim>\<open>toLowerCase\<close>, \<^verbatim>\<open>toUpperCase\<close>
  change the letters \<open>A\<close> to \<open>Z\<close> and \<open>a\<close> to \<open>z\<close>.
\<close>

record dart_lib =
  render :: "json \<Rightarrow> string"
  list_sort :: "(obj \<Rightarrow> obj \<Rightarrow> int) \<Rightarrow> obj list \<Rightarrow> obj list"
  int_parse :: "string \<Rightarrow> int option"

definition toString :: "dart_lib \<Rightarrow> json \<Rightarrow> string" where
  "toString lib v = (case v of JString s \<Rightarrow> s | _ \<Rightarrow> render lib v)"

text \<open>\<^verbatim>\<open>v?.toString()\<close>\<close>

definition toString_opt :: "dart_lib \<Rightarrow> json \<Rightarrow> string option" where
  "toString_opt lib v = (case v of JNull \<Rightarrow> None | _ \<Rightarrow> Some (toString lib v))"

text \<open>\<^verbatim>\<open>(v ?? '').toString()\<close>\<close>

definition toString_or_empty :: "dart_lib \<Rightarrow> json \<Rightarrow> string" where
  "toString_or_empty lib v = (case v of JNull \<Rightarrow> [] | _ \<Rightarrow> toString lib v)"

definition lower_char :: "char \<Rightarrow> char" where
  "lower_char c =
     (let n = (of_char c :: nat) in if 65 \<le> n \<and> n \<le> 90 then char_of (n + 32) else c)"

definition upper_char :: "char \<Rightarrow> char" where
  "upper_char c =
     (let n = (of_char c :: nat) in if 97 \<le> n \<and> n \<le> 122 then char_of (n - 32) else c)"

definition toLowerCase :: "string \<Rightarrow> string" where
  "toLowerCase s = map lower_char s"

definition toUpperCase :: "string \<Rightarrow> string" where
  "toUpperCase s = map upper_char s"

fun startsWith :: "'a list \<Rightarrow> 'a list \<Rightarrow> bool" where
  "startsWith s [] = True"
| "startsWith [] (y # ys) = False"
| "startsWith (x # xs) (y # ys) = (x = y \<and> startsWith xs ys)"

text \<open>\<^verbatim>\<open>s.contains(t)\<close>: \<open>t\<close> occurs in \<open>s\<close> as a contiguous piece.\<close>

fun contains :: "'a list \<Rightarrow> 'a list \<Rightarrow> bool" where
  "contains [] t = startsWith [] t"
| "contains (x # xs) t = (startsWith (x # xs) t \<or> contains xs t)"

section \<open>The state of the generated application\<close>

text \<open>
  The fields of \<^verbatim>\<open>_HomePageState\<close> (cart, wishlist, search, the loaded configuration),
  the top-level variables \<^verbatim>\<open>productCards\<close>, \<^verbatim>\<open>isLoading\<close>, \<^verbatim>\<open>errorMessage\<close>,
  \<^verbatim>\<open>_productQuantities\<close>, and what the realtime listener reads. A colour is its 32-bit
  ARGB value. \<open>errorMessage\<close> keeps the exception whose text the program stores.
  The last two fields belong to the event loop, not to the program: the \<^verbatim>\<open>http.get\<close>
  calls of \<^verbatim>\<open>loadDynamicProductData\<close> that have not completed yet, and the number of
  such calls issued so far.
\<close>

record app_state =
  cartManager :: cart_manager
  wishlistManager :: wishlist_manager
  cartNotificationCount :: int
  wishlistNotificationCount :: int
  searchQuery :: string
  filteredProducts :: "obj list"
  dynamicProductCards :: "obj list"
  isLoading_home :: bool
  homeWidgets :: "obj list"
  dynamicStoreInfo :: obj
  dynamicDesignSettings :: obj
  pageBackgroundColor :: int
  productCards :: "obj list"
  isLoading :: bool
  errorMessage :: "error option"
  productQuantities :: "(string \<times> int) list"
  mounted :: bool
  updateController_isClosed :: bool
  pending_gets :: nat
  issued_gets :: nat

text \<open>The fields as their declarations initialise them, in a mounted page with an open stream.\<close>

definition initial_state :: app_state where
  "initial_state =
     \<lparr>cartManager = CartManager, wishlistManager = [], cartNotificationCount = 0,
      wishlistNotificationCount = 0, searchQuery = [], filteredProducts = [],
      dynamicProductCards = [], isLoading_home = True, homeWidgets = [],
      dynamicStoreInfo = [], dynamicDesignSettings = [], pageBackgroundColor = 4294967295,
      productCards = [], isLoading = True, errorMessage = None, productQuantities = [],
      mounted = True, updateController_isClosed = False, pending_gets = 0, issued_gets = 0\<rparr>"

text \<open>
  The outcome of \<^verbatim>\<open>http.get\<close>: no response (the call throws), or a status code with
  what \<^verbatim>\<open>json.decode\<close> makes of the body (\<open>None\<close> where it throws).
\<close>

datatype http_result = NoResponse | Response int "json option"

subsection \<open>Loading the configuration of the home page\<close>

definition Colors_blue :: int where
  "Colors_blue = 4280391411"

definition colorFromHex :: "dart_lib \<Rightarrow> string option \<Rightarrow> int" where
  "colorFromHex lib hexColor =
     (case hexColor of
        None \<Rightarrow> Colors_blue
      | Some h \<Rightarrow>
          if h = [] then Colors_blue
          else
            let c = filter (\<lambda>x. x \<noteq> CHR ''#'') (toUpperCase h)
            in if length c = 6 \<or> length c = 8
               then (case int_parse lib (''0x'' @ (if length c = 6 then ''FF'' @ c else c)) of
                       None \<Rightarrow> Colors_blue
                     | Some v \<Rightarrow> v mod 2 ^ 32)
               else Colors_blue)"

definition filterProducts :: "dart_lib \<Rightarrow> string \<Rightarrow> app_state \<Rightarrow> app_state" where
  "filterProducts lib query s =
     s\<lparr>searchQuery := query,
       filteredProducts :=
         (if query = [] then dynamicProductCards s
          else filter (\<lambda>product.
                 let productName = toLowerCase (toString_or_empty lib (lookup product ''productName''));
                     price = toLowerCase (toString_or_empty lib (lookup product ''price''));
                     discountPrice = toLowerCase (toString_or_empty lib (lookup product ''discountPrice''));
                     searchLower = toLowerCase query
                 in contains productName searchLower \<or> contains price searchLower
                    \<or> contains discountPrice searchLower)
               (dynamicProductCards s))\<rparr>"

text \<open>The products of the widgets of the first page, in the order of the widgets.\<close>

fun extract_products :: "dart_lib \<Rightarrow> obj list \<Rightarrow> error + obj list" where
  "extract_products lib [] = Inr []"
| "extract_products lib (w # ws) =
     (let name = toString_or_empty lib (lookup w ''name'')
      in bind_e
           (if name = ''ProductGridWidget'' \<or> name = ''Catalog View Card''
               \<or> name = ''Product Detail Card''
            then (case lookup w ''properties'' of
                    JMap props \<Rightarrow>
                      (case lookup props ''productCards'' of
                         JList cards \<Rightarrow> maps_from cards
                       | _ \<Rightarrow> Inr [])
                  | _ \<Rightarrow> Inr [])
            else Inr [])
           (\<lambda>cards. bind_e (extract_products lib ws) (\<lambda>rest. Inr (cards @ rest))))"

text \<open>The comparator that puts \<^verbatim>\<open>HeaderWidget\<close> first.\<close>

definition header_first :: "obj \<Rightarrow> obj \<Rightarrow> int" where
  "header_first a b =
     (let aIsHeader = (lookup a ''name'' = JString ''HeaderWidget'');
          bIsHeader = (lookup b ''name'' = JString ''HeaderWidget'')
      in if aIsHeader \<and> \<not> bIsHeader then - 1
         else if \<not> aIsHeader \<and> bIsHeader then 1
         else 0)"

record config =
  cfg_pageProps :: obj
  cfg_widgets :: "obj list"
  cfg_products :: "obj list"
  cfg_storeInfo :: obj
  cfg_designSettings :: obj

definition map_or_empty :: "json \<Rightarrow> obj" where
  "map_or_empty v = (case v of JMap m \<Rightarrow> m | _ \<Rightarrow> [])"

text \<open>
  The body of \<^verbatim>\<open>if (response.statusCode == 200)\<close> in \<^verbatim>\<open>_loadDynamicAppConfig\<close> up
  to the call of \<^verbatim>\<open>setState\<close>: \<open>Inr None\<close> when \<^verbatim>\<open>data['success']\<close> is not
  \<^verbatim>\<open>true\<close>, \<open>Inl\<close> when a step throws.
\<close>

definition extract_config :: "dart_lib \<Rightarrow> json \<Rightarrow> error + config option" where
  "extract_config lib data =
     bind_e (dyn_index data ''success'') (\<lambda>success.
       if success = JBool True then
         bind_e (dyn_index data ''pages'') (\<lambda>pagesRaw.
           let pages = (case pagesRaw of JList xs \<Rightarrow> xs | _ \<Rightarrow> []);
               pageProps = (case pages of
                              JMap first # _ \<Rightarrow> map_or_empty (lookup first ''properties'')
                            | _ \<Rightarrow> [])
           in bind_e
                (case pages of
                   JMap first # _ \<Rightarrow>
                     (case lookup first ''widgets'' of JList ws \<Rightarrow> maps_from ws | _ \<Rightarrow> Inr [])
                 | _ \<Rightarrow> Inr [])
                (\<lambda>extractedWidgets.
                   bind_e (extract_products lib extractedWidgets) (\<lambda>extractedProducts.
                     bind_e (dyn_index data ''storeInfo'') (\<lambda>storeInfoRaw.
                       bind_e (dyn_index data ''designSettings'') (\<lambda>designRaw.
                         Inr (Some \<lparr>cfg_pageProps = pageProps,
                                    cfg_widgets = list_sort lib header_first extractedWidgets,
                                    cfg_products = extractedProducts,
                                    cfg_storeInfo = map_or_empty storeInfoRaw,
                                    cfg_designSettings = map_or_empty designRaw\<rparr>))))))
       else Inr None)"

text \<open>The callback given to \<^verbatim>\<open>setState\<close> on success.\<close>

definition apply_config :: "dart_lib \<Rightarrow> config \<Rightarrow> app_state \<Rightarrow> app_state" where
  "apply_config lib c s =
     (let s1 = s\<lparr>dynamicProductCards :=
                   (if cfg_products c \<noteq> [] then cfg_products c else productCards s)\<rparr>;
          s2 = filterProducts lib (searchQuery s1) s1
      in s2\<lparr>homeWidgets := cfg_widgets c,
             dynamicStoreInfo := cfg_storeInfo c,
             dynamicDesignSettings := cfg_designSettings c,
             pageBackgroundColor :=
               colorFromHex lib (toString_opt lib (lookup (cfg_pageProps c) ''backgroundColor'')),
             isLoading_home := False\<rparr>)"

text \<open>\<^verbatim>\<open>_loadDynamicAppConfig\<close> from the moment \<^verbatim>\<open>http.get\<close> has its outcome.\<close>

definition loadDynamicAppConfig :: "dart_lib \<Rightarrow> http_result \<Rightarrow> app_state \<Rightarrow> app_state" where
  "loadDynamicAppConfig lib r s =
     (case r of
        NoResponse \<Rightarrow> s\<lparr>isLoading_home := False\<rparr>
      | Response statusCode body \<Rightarrow>
          if statusCode = 200 then
            (case body of
               None \<Rightarrow> s\<lparr>isLoading_home := False\<rparr>
             | Some data \<Rightarrow>
                 (case extract_config lib data of
                    Inl e \<Rightarrow> s\<lparr>isLoading_home := False\<rparr>
                  | Inr None \<Rightarrow> s
                  | Inr (Some c) \<Rightarrow> apply_config lib c s))
          else s)"

text \<open>
  \<^verbatim>\<open>_loadDynamicData\<close>, called by \<^verbatim>\<open>initState\<close> and by the pull-to-refresh: the part
  before the request is sent, and the part that runs when its outcome is there.
\<close>

definition loadDynamicData_begin :: "app_state \<Rightarrow> app_state" where
  "loadDynamicData_begin s = s\<lparr>isLoading_home := True\<rparr>"

definition loadDynamicData_complete :: "dart_lib \<Rightarrow> http_result \<Rightarrow> app_state \<Rightarrow> app_state" where
  "loadDynamicData_complete lib r s =
     (let s1 = loadDynamicAppConfig lib r s
      in if mounted s1 then s1\<lparr>isLoading_home := False\<rparr> else s1)"

subsection \<open>Reloading the products on a realtime update\<close>

text \<open>\<^verbatim>\<open>loadDynamicProductData\<close> goes through the widgets of a page, and through the pages.\<close>

fun widget_products :: "json list \<Rightarrow> error + obj list" where
  "widget_products [] = Inr []"
| "widget_products (widget # ws) =
     bind_e (dyn_index widget ''properties'') (\<lambda>properties.
       bind_e
         (if properties \<noteq> JNull
          then bind_e (dyn_index properties ''productCards'') (\<lambda>cards.
                 if cards \<noteq> JNull then maps_from_dyn cards else Inr [])
          else Inr [])
         (\<lambda>products. bind_e (widget_products ws) (\<lambda>rest. Inr (products @ rest))))"

fun page_products :: "json list \<Rightarrow> error + obj list" where
  "page_products [] = Inr []"
| "page_products (page # ps) =
     bind_e (dyn_index page ''widgets'') (\<lambda>widgets.
       bind_e
         (if widgets \<noteq> JNull
          then (case widgets of JList ws \<Rightarrow> widget_products ws | _ \<Rightarrow> Inl TypeError)
          else Inr [])
         (\<lambda>products. bind_e (page_products ps) (\<lambda>rest. Inr (products @ rest))))"

text \<open>
  The body of \<^verbatim>\<open>if (response.statusCode == 200)\<close>. Both \<^verbatim>\<open>data['success']\<close> and
  \<^verbatim>\<open>data['pages']\<close> index the same receiver, so they throw together.
\<close>

definition all_products :: "json \<Rightarrow> error + obj list" where
  "all_products data =
     bind_e (dyn_index data ''success'') (\<lambda>success.
       bind_e (dyn_index data ''pages'') (\<lambda>pagesRaw.
         if success = JBool True \<and> pagesRaw \<noteq> JNull
         then (case pagesRaw of JList pages \<Rightarrow> page_products pages | _ \<Rightarrow> Inl TypeError)
         else Inl Exception_InvalidResponseFormat))"

text \<open>
  \<^verbatim>\<open>loadDynamicProductData\<close>: up to the call of \<^verbatim>\<open>http.get\<close> (the admin id is a
  constant of the build, its lookup cannot fail), and from the outcome of the call on.
  There is no test of a request in flight before the call.
\<close>

definition loadDynamicProductData_begin :: "app_state \<Rightarrow> app_state" where
  "loadDynamicProductData_begin s =
     s\<lparr>isLoading := True, errorMessage := None,
       pending_gets := Suc (pending_gets s), issued_gets := Suc (issued_gets s)\<rparr>"

definition loadDynamicProductData_complete :: "http_result \<Rightarrow> app_state \<Rightarrow> app_state" where
  "loadDynamicProductData_complete r s =
     (case (case r of
              NoResponse \<Rightarrow> Inl NetworkError
            | Response statusCode body \<Rightarrow>
                if statusCode = 200
                then (case body of None \<Rightarrow> Inl FormatException | Some data \<Rightarrow> all_products data)
                else Inl (Exception_HTTP statusCode)) of
        Inr newProducts \<Rightarrow> s\<lparr>productCards := newProducts, isLoading := False\<rparr>
      | Inl e \<Rightarrow> s\<lparr>errorMessage := Some e, isLoading := False\<rparr>)"

text \<open>
  \<^verbatim>\<open>DynamicAppSync._setupSocketListeners\<close>: what a socket event puts on the stream of
  updates. Two event names have a handler. \<^verbatim>\<open>Map<String, dynamic>.from(data)\<close> throws
  when the payload is not a map, and then nothing is put on the stream.
\<close>

definition DynamicAppSync_on :: "string \<Rightarrow> json \<Rightarrow> app_state \<Rightarrow> obj option" where
  "DynamicAppSync_on event data s =
     (if event = ''dynamic-update''
      then (if \<not> updateController_isClosed s
            then (case data of JMap m \<Rightarrow> Some m | _ \<Rightarrow> None) else None)
      else if event = ''home-page''
      then (if \<not> updateController_isClosed s
            then Some [(''type'', JString ''home-page''), (''data'', data)] else None)
      else None)"

text \<open>The listener that \<^verbatim>\<open>startRealTimeUpdates\<close> subscribes to the stream.\<close>

definition update_type :: "dart_lib \<Rightarrow> obj \<Rightarrow> string option" where
  "update_type lib update = map_option toLowerCase (toString_opt lib (lookup update ''type''))"

definition on_update :: "dart_lib \<Rightarrow> obj \<Rightarrow> app_state \<Rightarrow> app_state" where
  "on_update lib update s =
     (if \<not> mounted s then s
      else if update_type lib update = Some ''home-page''
              \<or> update_type lib update = Some ''dynamic-update''
      then loadDynamicProductData_begin s
      else s)"

definition on_socket_event :: "dart_lib \<Rightarrow> string \<Rightarrow> json \<Rightarrow> app_state \<Rightarrow> app_state" where
  "on_socket_event lib event data s =
     (case DynamicAppSync_on event data s of None \<Rightarrow> s | Some update \<Rightarrow> on_update lib update s)"

text \<open>
  \<^verbatim>\<open>ApiService._setupSocketListeners\<close>: the seven event names whose payload is put on
  the stream \<^verbatim>\<open>realTimeUpdates\<close>. Nothing in the program listens to that stream.
\<close>

definition ApiService_update_events :: "string list" where
  "ApiService_update_events =
     [''dynamic-update'', ''admin-specific-update'', ''splash-screen'', ''home-page'',
      ''app-info'', ''test-update'', ''configuration-update'']"

definition ApiService_on :: "string \<Rightarrow> json \<Rightarrow> obj option" where
  "ApiService_on event data =
     (if event \<in> set ApiService_update_events
      then (case data of JMap m \<Rightarrow> Some m | _ \<Rightarrow> None)
      else None)"

text \<open>
  What happens to the running application, one occurrence after the other: a socket
  event arrives, or a pending \<^verbatim>\<open>http.get\<close> of \<^verbatim>\<open>loadDynamicProductData\<close> completes.
\<close>

datatype occurrence = SocketEvent string json | GetCompletes http_result

fun step :: "dart_lib \<Rightarrow> app_state \<Rightarrow> occurrence \<Rightarrow> app_state" where
  "step lib s (SocketEvent event data) = on_socket_event lib event data s"
| "step lib s (GetCompletes r) =
     (if pending_gets s = 0 then s
      else loadDynamicProductData_complete r (s\<lparr>pending_gets := pending_gets s - 1\<rparr>))"

definition run :: "dart_lib \<Rightarrow> app_state \<Rightarrow> occurrence list \<Rightarrow> app_state" where
  "run lib s os = foldl (step lib) s os"

subsection \<open>The controls of the cart page and of the wishlist page\<close>

datatype snackbar = Item_removed_from_cart | Only_have_10_products_allowed | Added_to_cart

text \<open>
  The decrease and the increase control of a cart line. \<open>item\<close> is the line of the cart
  the control was built for.
\<close>

definition cart_decrease_onTap :: "cart_item \<Rightarrow> app_state \<Rightarrow> error + app_state \<times> snackbar option" where
  "cart_decrease_onTap item s =
     (if 1 < quantity item
      then bind_e (updateQuantity (cartManager s) (id_c item) (quantity item - 1))
             (\<lambda>cm. Inr (s\<lparr>cartManager := cm\<rparr>, None))
      else Inr (s\<lparr>cartManager := removeItem (cartManager s) (id_c item)\<rparr>,
                Some Item_removed_from_cart))"

definition cart_increase_onTap :: "cart_item \<Rightarrow> app_state \<Rightarrow> error + app_state \<times> snackbar option" where
  "cart_increase_onTap item s =
     (if totalQuantity (cartManager s) < 10
      then bind_e (updateQuantity (cartManager s) (id_c item) (wrap64 (quantity item + 1)))
             (\<lambda>cm. Inr (s\<lparr>cartManager := cm\<rparr>, None))
      else Inr (s, Some Only_have_10_products_allowed))"

text \<open>
  The cart button of a wishlist entry, the only caller of \<^verbatim>\<open>CartManager.addItem\<close>: a new
  \<^verbatim>\<open>CartItem\<close> with the default quantity 1.
\<close>

definition wishlist_cart_onPressed :: "wishlist_item \<Rightarrow> app_state \<Rightarrow> app_state \<times> snackbar" where
  "wishlist_cart_onPressed item s =
     (s\<lparr>cartManager :=
          addItem (cartManager s)
            \<lparr>id_c = id_w item, name = name_w item, price = price_w item,
             discountPrice = discountPrice_w item, quantity = 1, image_c = image_w item\<rparr>,
        cartNotificationCount := wrap64 (cartNotificationCount s + 1)\<rparr>,
      Added_to_cart)"

definition wishlist_delete_onPressed :: "wishlist_item \<Rightarrow> app_state \<Rightarrow> app_state" where
  "wishlist_delete_onPressed item s =
     s\<lparr>wishlistManager := removeItem_w (wishlistManager s) (id_w item)\<rparr>"

text \<open>
  \<^verbatim>\<open>_getTotalCartQuantity\<close> and \<^verbatim>\<open>_canAddToCart\<close> add up the quantity selectors of
  the product cards (\<^verbatim>\<open>_productQuantities\<close>), not the lines of the cart. No control
  calls \<^verbatim>\<open>_canAddToCart\<close>.
\<close>

definition getTotalCartQuantity :: "app_state \<Rightarrow> int" where
  "getTotalCartQuantity s =
     foldl (\<lambda>sum quantity. wrap64 (sum + quantity)) 0 (map snd (productQuantities s))"

definition canAddToCart :: "app_state \<Rightarrow> bool" where
  "canAddToCart s = (getTotalCartQuantity s < 10)"

subsection \<open>Resolving a widget descriptor\<close>

text \<open>
  \<^verbatim>\<open>_buildHomeWidgetFromConfig\<close> is a \<^verbatim>\<open>switch\<close> on the name of the descriptor with
  nine \<^verbatim>\<open>case\<close> labels and a \<^verbatim>\<open>default\<close>. The widget trees that the nine cases
  build are not modelled: \<open>body\<close> stands for them, and may fail.
\<close>

datatype 'w render = SizedBox_shrink | Built 'w

definition widget_cases :: "string list" where
  "widget_cases =
     [''HeaderWidget'', ''HeroBannerWidget'', ''ProductSearchBarWidget'', ''Catalog View Card'',
      ''Product Detail Card'', ''StoreInfoWidget'', ''ImageSliderWidget'',
      ''ProductDescriptionWidget'', ''SmallCardWidget'']"

definition buildHomeWidgetFromConfig ::
  "dart_lib \<Rightarrow> (string \<Rightarrow> obj \<Rightarrow> app_state \<Rightarrow> error + 'w) \<Rightarrow> obj \<Rightarrow> app_state \<Rightarrow> error + 'w render" where
  "buildHomeWidgetFromConfig lib body widgetData s =
     (let name = toString_or_empty lib (lookup widgetData ''name'');
          props = map_or_empty (lookup widgetData ''properties'')
      in if name \<in> set widget_cases
         then bind_e (body name props s) (\<lambda>w. Inr (Built w))
         else Inr SizedBox_shrink)"

section \<open>Price strings\<close>

text \<open>
  A price string is a Dart \<^verbatim>\<open>String\<close>, a sequence of UTF-16 code units, here numbers:
  the currency symbols that \<^verbatim>\<open>detectCurrency\<close> looks for lie outside ASCII. Each of
  them is one code unit.
\<close>

type_synonym code_units = "nat list"

definition units :: "string \<Rightarrow> code_units" where
  "units s = map of_char s"

definition is_digit :: "nat \<Rightarrow> bool" where
  "is_digit u = (48 \<le> u \<and> u \<le> 57)"

text \<open>The white space that \<^verbatim>\<open>double.tryParse\<close> skips at both ends, as \<^verbatim>\<open>String.trim\<close>.\<close>

definition is_space :: "nat \<Rightarrow> bool" where
  "is_space u =
     ((9 \<le> u \<and> u \<le> 13) \<or> u = 32 \<or> u = 133 \<or> u = 160 \<or> u = 5760
      \<or> (8192 \<le> u \<and> u \<le> 8202) \<or> u = 8232 \<or> u = 8233 \<or> u = 8239 \<or> u = 8287
      \<or> u = 12288 \<or> u = 65279)"

definition trim :: "code_units \<Rightarrow> code_units" where
  "trim s = rev (dropWhile is_space (rev (dropWhile is_space s)))"

definition digits_value :: "code_units \<Rightarrow> nat" where
  "digits_value ds = foldl (\<lambda>a d. 10 * a + (d - 48)) 0 ds"

text \<open>
  The exponent part of a floating-point text: nothing, or \<open>e\<close> or \<open>E\<close>, an optional
  sign and at least one digit up to the end of the text.
\<close>

definition exponent_part :: "code_units \<Rightarrow> int option" where
  "exponent_part r =
     (if r = [] then Some 0
      else if hd r = 101 \<or> hd r = 69 then
        (let r1 = tl r;
             ds = (if startsWith r1 [45] \<or> startsWith r1 [43] then tl r1 else r1)
         in if ds \<noteq> [] \<and> list_all is_digit ds
            then Some (if startsWith r1 [45] then - int (digits_value ds) else int (digits_value ds))
            else None)
      else None)"

text \<open>
  \<^verbatim>\<open>double.tryParse\<close>: white space at both ends, an optional sign, then \<open>Infinity\<close>,
  \<open>NaN\<close>, or a mantissa (digits with an optional point and more digits, or a point and
  digits) with an optional exponent part; the decimal value is rounded to the nearest
  double. \<open>None\<close> is Dart's \<^verbatim>\<open>null\<close>.
\<close>

definition tryParse :: "code_units \<Rightarrow> double option" where
  "tryParse source =
     (let t = trim source;
          negative = startsWith t [45];
          u = (if startsWith t [45] \<or> startsWith t [43] then tl t else t)
      in if u = units ''Infinity'' then Some (if negative then NegInfinity else PosInfinity)
         else if u = units ''NaN'' then Some NaN
         else
           let intPart = takeWhile is_digit u;
               r1 = dropWhile is_digit u;
               fracPart = (if startsWith r1 [46] then takeWhile is_digit (tl r1) else []);
               r2 = (if startsWith r1 [46] then dropWhile is_digit (tl r1) else r1)
           in if intPart = [] \<and> fracPart = [] then None
              else (case exponent_part r2 of
                      None \<Rightarrow> None
                    | Some ex \<Rightarrow>
                        Some (rnd ((if negative then - 1 else 1)
                                   * of_nat (digits_value (intPart @ fracPart))
                                   * 10 powi (ex - int (length fracPart))))))"

text \<open>
  \<^verbatim>\<open>PriceUtils.parsePrice\<close>. The pattern of the source is \<^verbatim>\<open>[^d.]\<close>: the
  \<^verbatim>\<open>replaceAll\<close> deletes every code unit but the letter \<open>d\<close> (100) and the point (46).
\<close>

definition parsePrice :: "code_units \<Rightarrow> double" where
  "parsePrice priceString =
     (if priceString = [] then Finite 0
      else
        let numericString = filter (\<lambda>u. u = 100 \<or> u = 46) priceString
        in (case tryParse numericString of None \<Rightarrow> Finite 0 | Some v \<Rightarrow> v))"

text \<open>
  \<^verbatim>\<open>PriceUtils.detectCurrency\<close>: the rupee sign, the dollar sign, the euro sign, the
  pound sign, the yen sign, the won sign, the ruble sign, the naira sign and the old
  rupee sign, in this order.
\<close>

definition detectCurrency :: "code_units \<Rightarrow> code_units" where
  "detectCurrency priceString =
     (if contains priceString [8377] then [8377]
      else if contains priceString [36] then [36]
      else if contains priceString [8364] then [8364]
      else if contains priceString [163] then [163]
      else if contains priceString [165] then [165]
      else if contains priceString [8361] then [8361]
      else if contains priceString [8381] then [8381]
      else if contains priceString [8358] then [8358]
      else if contains priceString [8360] then [8360]
      else [36])"

section \<open>Properties of the rounding\<close>

lemma bitlen_bounds: "0 < n \<Longrightarrow> 2 ^ (bitlen n - 1) \<le> n \<and> n < 2 ^ bitlen n"
proof (induction n rule: bitlen.induct)
  case (1 n)
  show ?case
  proof (cases "n div 2 = 0")
    case True
    with "1.prems" have "n = 1" by presburger
    then show ?thesis by (simp add: bitlen.simps)
  next
    case False
    then have pos: "0 < n div 2" by simp
    from "1.IH" [OF _ pos] "1.prems"
    have ih: "2 ^ (bitlen (n div 2) - 1) \<le> n div 2" "n div 2 < 2 ^ bitlen (n div 2)" by auto
    have bl: "bitlen n = Suc (bitlen (n div 2))" using "1.prems" by (subst bitlen.simps) simp
    have "2 * 2 ^ (bitlen (n div 2) - 1) \<le> 2 * (n div 2)" using ih(1) by simp
    also have "\<dots> \<le> n" by simp
    finally have lo: "2 ^ bitlen (n div 2) \<le> n"
      using pos by (cases "bitlen (n div 2)") (simp_all add: bitlen.simps)
    have "n < 2 * (n div 2) + 2" by presburger
    also have "\<dots> \<le> 2 * 2 ^ bitlen (n div 2)" using ih(2) by simp
    finally have hi: "n < 2 ^ Suc (bitlen (n div 2))" by simp
    show ?thesis using lo hi bl by simp
  qed
qed

lemma pow2_mono: "a \<le> b \<Longrightarrow> pow2 a \<le> pow2 b"
  unfolding pow2_def by (rule power_int_increasing) simp_all

lemma pow2_pos: "0 < pow2 a"
  unfolding pow2_def by simp

lemma pow2_nat: "pow2 (int n) = 2 ^ n"
  unfolding pow2_def by simp

lemma pow2_unique:
  assumes "pow2 k \<le> q" "q < pow2 (k + 1)" "pow2 r \<le> q" "q < pow2 (r + 1)"
  shows "k = r"
proof (rule ccontr)
  assume "k \<noteq> r"
  then consider "k + 1 \<le> r" | "r + 1 \<le> k" by linarith
  then show False
  proof cases
    case 1
    from pow2_mono [OF this] assms show False by linarith
  next
    case 2
    from pow2_mono [OF this] assms show False by linarith
  qed
qed

lemma pow2_diff_nat: "pow2 (int m - int n) = 2 ^ m / 2 ^ n"
  unfolding pow2_def by (simp add: power_int_diff)

lemma ilog2_bounds:
  assumes "0 < q"
  shows "pow2 (ilog2 q) \<le> q \<and> q < pow2 (ilog2 q + 1)"
proof -
  obtain a b where ab: "quotient_of q = (a, b)" by (cases "quotient_of q")
  have bpos: "0 < b" using ab by (rule quotient_of_denom_pos)
  have q: "q = of_int a / of_int b" using ab by (rule quotient_of_div)
  have apos: "0 < a" using assms bpos unfolding q by (simp add: zero_less_divide_iff)
  define la where "la = bitlen (nat a)"
  define lb where "lb = bitlen (nat b)"
  from bitlen_bounds [of "nat a"] apos
  have a1: "2 ^ (la - 1) \<le> nat a" and a2: "nat a < 2 ^ la" by (simp_all add: la_def)
  from bitlen_bounds [of "nat b"] bpos
  have b1: "2 ^ (lb - 1) \<le> nat b" and b2: "nat b < 2 ^ lb" by (simp_all add: lb_def)
  have la1: "1 \<le> la" using a2 apos by (cases la) auto
  have lb1: "1 \<le> lb" using b2 bpos by (cases lb) auto
  have ra1: "(2::rat) ^ (la - 1) \<le> of_int a"
  proof -
    have "(of_nat (2 ^ (la - 1)) :: rat) \<le> of_nat (nat a)" using a1 by (simp only: of_nat_le_iff)
    then show ?thesis using apos by simp
  qed
  have ra2: "of_int a < (2::rat) ^ la"
  proof -
    have "(of_nat (nat a) :: rat) < of_nat (2 ^ la)" using a2 by (simp only: of_nat_less_iff)
    then show ?thesis using apos by simp
  qed
  have rb1: "(2::rat) ^ (lb - 1) \<le> of_int b"
  proof -
    have "(of_nat (2 ^ (lb - 1)) :: rat) \<le> of_nat (nat b)" using b1 by (simp only: of_nat_le_iff)
    then show ?thesis using bpos by simp
  qed
  have rb2: "of_int b < (2::rat) ^ lb"
  proof -
    have "(of_nat (nat b) :: rat) < of_nat (2 ^ lb)" using b2 by (simp only: of_nat_less_iff)
    then show ?thesis using bpos by simp
  qed
  define k where "k = int la - int lb"
  have up: "q < pow2 (k + 1)"
  proof -
    have "k + 1 = int la - int (lb - 1)" using lb1 by (simp add: k_def)
    then have e: "pow2 (k + 1) = 2 ^ la / 2 ^ (lb - 1)" by (simp only: pow2_diff_nat)
    have "q < 2 ^ la / of_int b" unfolding q using ra2 bpos by (simp add: divide_strict_right_mono)
    also have "\<dots> \<le> 2 ^ la / 2 ^ (lb - 1)" using rb1 by (simp add: frac_le)
    finally show ?thesis using e by simp
  qed
  have low: "pow2 (k - 1) < q"
  proof -
    have "k - 1 = int (la - 1) - int lb" using la1 by (simp add: k_def)
    then have e: "pow2 (k - 1) = 2 ^ (la - 1) / 2 ^ lb" by (simp only: pow2_diff_nat)
    have "(2::rat) ^ (la - 1) / 2 ^ lb < 2 ^ (la - 1) / of_int b"
      using rb2 bpos by (simp add: frac_less2)
    also have "\<dots> \<le> q" unfolding q using ra1 bpos by (simp add: divide_right_mono)
    finally show ?thesis using e by simp
  qed
  have il: "ilog2 q = (if pow2 k \<le> q then k else k - 1)"
    by (simp add: ilog2_def ab la_def lb_def k_def Let_def)
  show ?thesis
  proof (cases "pow2 k \<le> q")
    case True
    then show ?thesis using il up by simp
  next
    case False
    then show ?thesis using il low by simp
  qed
qed

lemma ilog2_eqI: "pow2 k \<le> q \<Longrightarrow> q < pow2 (k + 1) \<Longrightarrow> ilog2 q = k"
proof -
  assume a: "pow2 k \<le> q" "q < pow2 (k + 1)"
  then have "0 < q" using pow2_pos [of k] by linarith
  from ilog2_bounds [OF this] a show ?thesis by (metis pow2_unique)
qed

lemma round_half_even_eqI: "\<bar>x - of_int m\<bar> < 1 / 2 \<Longrightarrow> round_half_even x = m"
proof -
  assume a: "\<bar>x - of_int m\<bar> < 1 / 2"
  consider "of_int m \<le> x" | "x < of_int m" by linarith
  then show ?thesis
  proof cases
    case 1
    then have "\<lfloor>x\<rfloor> = m" using a by (intro floor_unique) linarith+
    then show ?thesis using a 1 by (simp add: round_half_even_def Let_def)
  next
    case 2
    then have f: "\<lfloor>x\<rfloor> = m - 1" using a by (intro floor_unique) (simp, linarith)+
    then show ?thesis using a 2 by (simp add: round_half_even_def Let_def)
  qed
qed

lemma rnd_eqI:
  assumes "pow2 (e + 52) \<le> q" "q < pow2 (e + 53)" "- 1074 \<le> e"
    and "\<bar>q / pow2 e - of_int m\<bar> < 1 / 2" "of_int m * pow2 e < pow2 1024"
  shows "rnd q = Finite (of_int m * pow2 e)"
proof -
  have qpos: "0 < q" using assms(1) pow2_pos [of "e + 52"] by linarith
  have "ilog2 q = e + 52" using assms(1,2) by (intro ilog2_eqI) (simp_all add: add.commute add.left_commute)
  then have e: "max (ilog2 \<bar>q\<bar> - 52) (- 1074) = e" using qpos assms(3) by simp
  have m: "round_half_even (\<bar>q\<bar> / pow2 e) = m" using assms(4) qpos by (simp add: round_half_even_eqI)
  show ?thesis using qpos e m assms(5) by (simp add: rnd_def Let_def)
qed

lemma rnd_int_exact:
  assumes "0 < n" "n < 2 ^ 53"
  shows "rnd (of_int n) = Finite (of_int n)"
proof -
  define l where "l = bitlen (nat n)"
  from bitlen_bounds [of "nat n"] assms(1)
  have b1: "2 ^ (l - 1) \<le> nat n" and b2: "nat n < 2 ^ l" by (simp_all add: l_def)
  have l1: "1 \<le> l" using b2 assms(1) by (cases l) auto
  have "nat n < 2 ^ 53" using assms by (simp add: nat_less_iff)
  then have "(2::nat) ^ (l - 1) < 2 ^ 53" using b1 by linarith
  then have l53: "l - 1 < 53" by (rule power_less_imp_less_exp [of "2::nat", rotated]) simp
  define e where "e = int (l - 1) - 52"
  define m where "m = n * 2 ^ (53 - l)"
  have lo: "pow2 (e + 52) \<le> of_int n"
  proof -
    have "(of_nat (2 ^ (l - 1)) :: rat) \<le> of_nat (nat n)" using b1 by (simp only: of_nat_le_iff)
    then show ?thesis using assms(1) by (simp add: e_def pow2_nat)
  qed
  have hi: "of_int n < pow2 (e + 53)"
  proof -
    have "(of_nat (nat n) :: rat) < of_nat (2 ^ l)" using b2 by (simp only: of_nat_less_iff)
    moreover have "e + 53 = int l" using l1 by (simp add: e_def)
    ultimately show ?thesis using assms(1) by (simp add: pow2_nat)
  qed
  have ee: "e = - int (53 - l)" using l1 l53 by (simp add: e_def)
  have pe: "pow2 e = 1 / 2 ^ (53 - l)" unfolding ee pow2_def by (simp add: power_int_minus field_simps)
  have q: "of_int n / pow2 e = of_int m" by (simp add: pe m_def)
  have v: "of_int m * pow2 e = of_int n" by (simp add: pe m_def)
  have "of_int n < pow2 1024"
  proof -
    have "(of_int n :: rat) < of_int (2 ^ 53)" using assms(2) by (simp only: of_int_less_iff)
    also have "\<dots> \<le> pow2 1024" by (simp add: pow2_def)
    finally show ?thesis .
  qed
  then have "rnd (of_int n) = Finite (of_int m * pow2 e)"
    using lo hi l53 by (intro rnd_eqI) (simp_all add: q v, simp add: e_def)
  then show ?thesis by (simp add: v)
qed

lemma rnd_numeral: "(numeral w :: int) < 2 ^ 53 \<Longrightarrow> rnd (numeral w) = Finite (numeral w)"
  using rnd_int_exact [of "numeral w"] by simp

lemma rnd_one: "rnd 1 = Finite 1"
  using rnd_int_exact [of 1] by simp

lemma rnd_zero: "rnd 0 = Finite 0"
  by (simp add: rnd_def)

text \<open>The roundings of the cart example.\<close>

lemma rnd_9_50: "rnd (9 / 50) = Finite (3242591731706757 / 18014398509481984)"
  using rnd_eqI [of "- 55" "9 / 50" 6485183463413514] by (simp add: pow2_def)

lemma rnd_63_10: "rnd (63 / 10) = Finite (7093169413108531 / 1125899906842624)"
  using rnd_eqI [of "- 50" "63 / 10" 7093169413108531] by (simp add: pow2_def)

lemma rnd_413_10: "rnd (413 / 10) = Finite (2906229134537523 / 70368744177664)"
  using rnd_eqI [of "- 47" "413 / 10" 5812458269075046] by (simp add: pow2_def)

lemma rnd_tax:
  "rnd (113490710609736495 / 18014398509481984) = Finite (7093169413108531 / 1125899906842624)"
  using rnd_eqI [of "- 50" "113490710609736495 / 18014398509481984" 7093169413108531]
  by (simp add: pow2_def)

lemma rnd_total:
  "rnd (46499666152600371 / 1125899906842624) = Finite (2906229134537523 / 70368744177664)"
  using rnd_eqI [of "- 47" "46499666152600371 / 1125899906842624" 5812458269075046]
  by (simp add: pow2_def)

section \<open>The totals of the cart\<close>

text \<open>
  C2. For the cart with the lines (price 10.00, discount price 0, quantity 2) and (price
  20.00, discount price 15.00, quantity 1) and the tax rate 18, which is the rate of a new
  \<^verbatim>\<open>CartManager\<close>, the derived values are: subtotal 35.00, discount total 5.00, tax 6.30
  and total 41.30. The effective price is the discount price when that is above zero and
  the price otherwise, the subtotal adds up effective price times quantity, the discount
  total adds up (price minus effective price) times quantity, the tax is subtotal times
  (rate / 100), and the total is subtotal plus tax. The values are those of the double
  arithmetic of the program: 6.30 and 41.30 are the doubles nearest to 63/10 and 413/10.
\<close>

theorem cart_totals_example:
  "let cm = CartManager\<lparr>items :=
       [\<lparr>id_c = i1, name = n1, price = Finite 10, discountPrice = Finite 0, quantity = 2,
         image_c = im1\<rparr>,
        \<lparr>id_c = i2, name = n2, price = Finite 20, discountPrice = Finite 15, quantity = 1,
         image_c = im2\<rparr>]\<rparr>
   in gstPercentage cm = Finite 18
      \<and> subtotal cm = Finite 35
      \<and> totalDiscount cm = Finite 5
      \<and> gstAmount cm = rnd (63 / 10)
      \<and> finalTotal cm = rnd (413 / 10)"
proof -
  define cm where "cm = CartManager\<lparr>items :=
       [\<lparr>id_c = i1, name = n1, price = Finite 10, discountPrice = Finite 0, quantity = 2,
         image_c = im1\<rparr>,
        \<lparr>id_c = i2, name = n2, price = Finite 20, discountPrice = Finite 15, quantity = 1,
         image_c = im2\<rparr>]\<rparr>"
  have g: "gstPercentage cm = Finite 18" by (simp add: cm_def CartManager_def)
  have s: "subtotal cm = Finite 35"
    by (simp add: cm_def subtotal_def totalPrice_def effectivePrice_def int_toDouble_def
        rnd_numeral rnd_one)
  have d: "totalDiscount cm = Finite 5"
    by (simp add: cm_def totalDiscount_def effectivePrice_def int_toDouble_def dsub_def
        rnd_numeral rnd_one rnd_zero)
  have t: "gstAmount cm = rnd (63 / 10)"
    by (simp add: gstAmount_def calculateTax_def s g rnd_9_50 rnd_tax rnd_63_10)
  have f: "finalTotal cm = rnd (413 / 10)"
    by (simp add: finalTotal_def t s rnd_63_10 rnd_total rnd_413_10)
  show ?thesis using g s d t f unfolding cm_def [symmetric] by (simp add: Let_def)
qed

section \<open>Changing the quantity of a line\<close>

lemma firstWhere_absent: "list_all (\<lambda>x. \<not> p x) xs \<Longrightarrow> firstWhere p xs = Inl StateError_NoElement"
  by (induction xs) simp_all

lemma firstWhere_present:
  "list_ex p xs \<Longrightarrow> \<exists>k<length xs. firstWhere p xs = Inr k \<and> p (xs ! k)"
proof (induction xs)
  case Nil
  then show ?case by simp
next
  case (Cons x xs)
  show ?case
  proof (cases "p x")
    case True
    then show ?thesis by simp
  next
    case False
    with Cons.prems have "list_ex p xs" by simp
    from Cons.IH [OF this] obtain k where "k < length xs" "firstWhere p xs = Inr k" "p (xs ! k)"
      by blast
    with False show ?thesis by (intro exI [of _ "Suc k"]) simp
  qed
qed

lemma firstWhere_first:
  "list_ex p xs \<Longrightarrow>
     \<exists>k<length xs. firstWhere p xs = Inr k \<and> p (xs ! k) \<and> (\<forall>j<k. \<not> p (xs ! j))"
proof (induction xs)
  case Nil
  then show ?case by simp
next
  case (Cons x xs)
  show ?case
  proof (cases "p x")
    case True
    then show ?thesis by simp
  next
    case False
    with Cons.prems have "list_ex p xs" by simp
    from Cons.IH [OF this] obtain k where
      k: "k < length xs" "firstWhere p xs = Inr k" "p (xs ! k)" "\<forall>j<k. \<not> p (xs ! j)"
      by blast
    have "\<forall>j<Suc k. \<not> p ((x # xs) ! j)"
    proof (intro allI impI)
      fix j
      assume "j < Suc k"
      then show "\<not> p ((x # xs) ! j)" using False k(4) by (cases j) simp_all
    qed
    with False k(1,2,3) show ?thesis by (intro exI [of _ "Suc k"]) simp
  qed
qed

text \<open>
  C10. \<^verbatim>\<open>CartManager.updateQuantity\<close> with a product id that no line of the cart has does
  not return and does not leave the cart as it is: \<^verbatim>\<open>firstWhere\<close> throws a
  \<^verbatim>\<open>StateError\<close>. It throws for these ids only, so the operation is safe exactly when
  the id is in the cart.
\<close>

theorem updateQuantity_throws_iff_absent:
  "(updateQuantity cm i q = Inl StateError_NoElement) = (i \<notin> id_c ` set (items cm))"
proof (cases "list_ex (\<lambda>item. id_c item = i) (items cm)")
  case True
  from firstWhere_present [OF this] obtain k where "firstWhere (\<lambda>item. id_c item = i) (items cm) = Inr k"
    by blast
  moreover from True have "i \<in> id_c ` set (items cm)" by (auto simp: list_ex_iff)
  ultimately show ?thesis by (simp add: updateQuantity_def)
next
  case False
  then have a: "list_all (\<lambda>item. \<not> id_c item = i) (items cm)" by (simp add: list_all_iff list_ex_iff)
  from False have "i \<notin> id_c ` set (items cm)" by (auto simp: list_ex_iff)
  then show ?thesis using firstWhere_absent [OF a] by (simp add: updateQuantity_def)
qed

theorem updateQuantity_throws_iff_absent_witness:
  "updateQuantity CartManager ''p1'' 3 = Inl StateError_NoElement
   \<and> updateQuantity
        (CartManager\<lparr>items := [\<lparr>id_c = ''p1'', name = ''Tea'', price = Finite 10,
            discountPrice = Finite 0, quantity = 1, image_c = None\<rparr>]\<rparr>) ''p1'' 3
       \<noteq> Inl StateError_NoElement"
  using updateQuantity_throws_iff_absent [of CartManager "''p1''" 3]
    updateQuantity_throws_iff_absent [of "CartManager\<lparr>items := [\<lparr>id_c = ''p1'', name = ''Tea'',
      price = Finite 10, discountPrice = Finite 0, quantity = 1, image_c = None\<rparr>]\<rparr>" "''p1''" 3]
  by (simp add: CartManager_def)

section \<open>The wishlist\<close>

lemma isInWishlist_iff: "isInWishlist w j = (j \<in> id_w ` set w)"
  by (auto simp: isInWishlist_def list_ex_iff)

lemma isInWishlist_add:
  "isInWishlist (addItem_w w item) j = (isInWishlist w j \<or> j = id_w item)"
proof (cases "list_ex (\<lambda>i. id_w i = id_w item) w")
  case True
  then obtain x where x: "x \<in> set w" "id_w x = id_w item" unfolding list_ex_iff by blast
  have "id_w item \<in> id_w ` set w" using x(1) x(2) [symmetric] by (rule image_eqI [rotated])
  then show ?thesis using True by (auto simp: isInWishlist_iff addItem_w_def)
next
  case False
  then show ?thesis by (auto simp: isInWishlist_iff addItem_w_def)
qed

lemma isInWishlist_remove:
  "isInWishlist (removeItem_w w i) j = (isInWishlist w j \<and> j \<noteq> i)"
  by (auto simp: isInWishlist_iff removeItem_w_def)

lemma isInWishlist_toggle:
  "isInWishlist (toggleWishlist w item) j = (if j = id_w item then \<not> isInWishlist w j else isInWishlist w j)"
  by (simp add: toggleWishlist_def isInWishlist_add isInWishlist_remove)

lemma distinct_addItem_w: "distinct (map id_w w) \<Longrightarrow> distinct (map id_w (addItem_w w item))"
  by (auto simp: addItem_w_def list_ex_iff)

lemma distinct_removeItem_w: "distinct (map id_w w) \<Longrightarrow> distinct (map id_w (removeItem_w w i))"
  by (simp add: removeItem_w_def distinct_map_filter)

lemma wishlist_reachable_distinct: "wishlist_reachable w \<Longrightarrow> distinct (map id_w w)"
proof (induction rule: wishlist_reachable.induct)
  case init
  show ?case by simp
next
  case (add w item)
  then show ?case by (simp add: distinct_addItem_w)
next
  case (remove w i)
  then show ?case by (simp add: distinct_removeItem_w)
next
  case (clear w)
  show ?case by (simp add: clear_w_def)
next
  case (toggle w item)
  then show ?case by (simp add: toggleWishlist_def distinct_addItem_w distinct_removeItem_w)
qed

text \<open>
  C8. Toggling the wishlist twice with the same product id gives back the membership it
  started from, for every id; and in every wishlist that the operations build from the
  empty one a product id occurs at most once.
\<close>

theorem toggleWishlist_twice:
  "(id_w item' = id_w item \<longrightarrow>
      (\<forall>j. isInWishlist (toggleWishlist (toggleWishlist w item) item') j = isInWishlist w j))
   \<and> (wishlist_reachable w \<longrightarrow> distinct (map id_w w))"
  by (simp add: isInWishlist_toggle wishlist_reachable_distinct)

theorem toggleWishlist_twice_witness:
  "let tea = \<lparr>id_w = ''p1'', name_w = ''Tea'', price_w = Finite 10, discountPrice_w = Finite 0,
                image_w = None, currencySymbol_w = ''$''\<rparr>;
       w = toggleWishlist [] tea
   in id_w tea = id_w tea
      \<and> isInWishlist w ''p1''
      \<and> isInWishlist (toggleWishlist (toggleWishlist w tea) tea) ''p1'' = isInWishlist w ''p1''
      \<and> wishlist_reachable w \<and> distinct (map id_w w)"
proof -
  define tea where "tea = \<lparr>id_w = ''p1'', name_w = ''Tea'', price_w = Finite 10,
     discountPrice_w = Finite 0, image_w = None, currencySymbol_w = ''$''\<rparr>"
  have r: "wishlist_reachable (toggleWishlist [] tea)"
    by (rule wishlist_reachable.toggle [OF wishlist_reachable.init])
  have m: "isInWishlist (toggleWishlist [] tea) ''p1''"
    by (simp add: tea_def toggleWishlist_def isInWishlist_def addItem_w_def)
  show ?thesis
    using toggleWishlist_twice [of tea tea "toggleWishlist [] tea"] r m
    unfolding tea_def [symmetric] by (simp add: Let_def)
qed

section \<open>The cap on the quantity of the cart\<close>

lemma wrap64_small: "- 9223372036854775808 \<le> x \<Longrightarrow> x < 9223372036854775808 \<Longrightarrow> wrap64 x = x"
  unfolding wrap64_def by (simp add: mod_pos_pos_trivial)

lemma press_line:
  assumes "items (cartManager s) = [\<lparr>id_c = id_w item, name = n, price = p, discountPrice = d, quantity = q, image_c = im\<rparr>]"
  shows "items (cartManager (fst (wishlist_cart_onPressed item s)))
     = [\<lparr>id_c = id_w item, name = n, price = p, discountPrice = d, quantity = wrap64 (q + 1), image_c = im\<rparr>]"
  using assms by (simp add: wishlist_cart_onPressed_def addItem_def)

lemma press_empty:
  assumes "items (cartManager s) = []"
  shows "items (cartManager (fst (wishlist_cart_onPressed item s)))
     = [\<lparr>id_c = id_w item, name = name_w item, price = price_w item, discountPrice = discountPrice_w item, quantity = 1, image_c = image_w item\<rparr>]"
  using assms by (simp add: wishlist_cart_onPressed_def addItem_def)

lemma presses:
  assumes "items (cartManager s) = []" "int n < 9223372036854775807"
  shows "items (cartManager (((\<lambda>s. fst (wishlist_cart_onPressed item s)) ^^ Suc n) s))
     = [\<lparr>id_c = id_w item, name = name_w item, price = price_w item,
         discountPrice = discountPrice_w item, quantity = int (Suc n), image_c = image_w item\<rparr>]"
  using assms(2)
proof (induction n)
  case 0
  show ?case using press_empty [OF assms(1)] by simp
next
  case (Suc n)
  then have "items (cartManager (((\<lambda>s. fst (wishlist_cart_onPressed item s)) ^^ Suc n) s))
     = [\<lparr>id_c = id_w item, name = name_w item, price = price_w item,
         discountPrice = discountPrice_w item, quantity = int (Suc n), image_c = image_w item\<rparr>]"
    by simp
  from press_line [OF this] have "items (cartManager (((\<lambda>s. fst (wishlist_cart_onPressed item s)) ^^ Suc (Suc n)) s))
     = [\<lparr>id_c = id_w item, name = name_w item, price = price_w item,
         discountPrice = discountPrice_w item, quantity = wrap64 (int (Suc n) + 1), image_c = image_w item\<rparr>]"
    by simp
  moreover have "wrap64 (int (Suc n) + 1) = int (Suc (Suc n))"
    using Suc.prems by (subst wrap64_small) simp_all
  ultimately show ?case by simp
qed

text \<open>
  C1. The claim: over every sequence of \<^verbatim>\<open>addToCart\<close> operations the aggregate quantity
  of the cart stays at 10 or below, since the call that would pass 10 is rejected and
  leaves the cart as it is. \<^verbatim>\<open>CartManager.addItem\<close> has no such test, and neither has
  its caller, the cart button of a wishlist entry: pressed eleven times on the empty cart
  it leaves one line of quantity 11, and so does one \<^verbatim>\<open>addItem\<close> of a line of
  quantity 11. The cart page tests the limit of 10 before it raises a quantity.
\<close>

theorem addItem_passes_the_cap:
  "let item = \<lparr>id_w = i, name_w = n, price_w = p, discountPrice_w = d, image_w = im,
                 currencySymbol_w = c\<rparr>;
       s11 = ((\<lambda>s. fst (wishlist_cart_onPressed item s)) ^^ 11) initial_state
   in items (cartManager s11)
        = [\<lparr>id_c = i, name = n, price = p, discountPrice = d, quantity = 11, image_c = im\<rparr>]
      \<and> totalQuantity (cartManager s11) = 11
      \<and> totalQuantity
           (addItem CartManager
              \<lparr>id_c = i, name = n, price = p, discountPrice = d, quantity = 11, image_c = im\<rparr>)
          = 11"
proof -
  define item where "item = \<lparr>id_w = i, name_w = n, price_w = p, discountPrice_w = d,
     image_w = im, currencySymbol_w = c\<rparr>"
  have e: "items (cartManager initial_state) = []" by (simp add: initial_state_def CartManager_def)
  have "Suc 10 = 11" by simp
  with presses [OF e, of 10 item]
  have a: "items (cartManager (((\<lambda>s. fst (wishlist_cart_onPressed item s)) ^^ 11) initial_state))
    = [\<lparr>id_c = i, name = n, price = p, discountPrice = d, quantity = 11, image_c = im\<rparr>]"
    by (simp add: item_def)
  have b: "totalQuantity (cartManager (((\<lambda>s. fst (wishlist_cart_onPressed item s)) ^^ 11) initial_state)) = 11"
    unfolding totalQuantity_def a by simp
  have c: "totalQuantity (addItem CartManager
              \<lparr>id_c = i, name = n, price = p, discountPrice = d, quantity = 11, image_c = im\<rparr>) = 11"
    by (simp add: addItem_def CartManager_def totalQuantity_def)
  show ?thesis using a b c unfolding item_def [symmetric] Let_def by simp
qed

text \<open>
  C9, as the claim states it: setting a quantity of zero or less removes the line, and
  setting a quantity above 10 is rejected and leaves the cart as it is. For a cart of
  one line of quantity 3, \<^verbatim>\<open>updateQuantity\<close> with 0 keeps the line, with quantity 0,
  where \<^verbatim>\<open>removeItem\<close> gives the empty cart; and \<^verbatim>\<open>updateQuantity\<close> with 11 stores 11.
\<close>

theorem setQuantity_counterexample:
  "updateQuantity
     (CartManager\<lparr>items := [\<lparr>id_c = ''p1'', name = ''Tea'', price = Finite 10,
        discountPrice = Finite 0, quantity = 3, image_c = None\<rparr>]\<rparr>) ''p1'' 0
   = Inr (CartManager\<lparr>items := [\<lparr>id_c = ''p1'', name = ''Tea'', price = Finite 10,
        discountPrice = Finite 0, quantity = 0, image_c = None\<rparr>]\<rparr>)
   \<and> removeItem
     (CartManager\<lparr>items := [\<lparr>id_c = ''p1'', name = ''Tea'', price = Finite 10,
        discountPrice = Finite 0, quantity = 3, image_c = None\<rparr>]\<rparr>) ''p1''
   = CartManager
   \<and> updateQuantity
     (CartManager\<lparr>items := [\<lparr>id_c = ''p1'', name = ''Tea'', price = Finite 10,
        discountPrice = Finite 0, quantity = 3, image_c = None\<rparr>]\<rparr>) ''p1'' 11
   = Inr (CartManager\<lparr>items := [\<lparr>id_c = ''p1'', name = ''Tea'', price = Finite 10,
        discountPrice = Finite 0, quantity = 11, image_c = None\<rparr>]\<rparr>)"
  by (simp add: updateQuantity_def removeItem_def CartManager_def)

text \<open>
  C9, amended. For a line of the cart, \<^verbatim>\<open>updateQuantity\<close> stores whatever quantity it
  is given on the first line with the product id (no line before it has the id) and
  on no other line, and it removes and rejects nothing. The
  cart page guards its calls: the decrease control removes the line, with the notice
  "Item removed from cart", when its quantity is 1 or less, and the increase control
  leaves the cart as it is, with the notice "Only have 10 products allowed", when the
  aggregate quantity is 10 or more.
\<close>

theorem quantity_controls:
  assumes "item \<in> set (items (cartManager s))"
  shows "(\<exists>k<length (items (cartManager s)).
            id_c (items (cartManager s) ! k) = id_c item
            \<and> (\<forall>j<k. id_c (items (cartManager s) ! j) \<noteq> id_c item)
            \<and> updateQuantity (cartManager s) (id_c item) q
                = Inr ((cartManager s)\<lparr>items := (items (cartManager s))
                         [k := (items (cartManager s) ! k)\<lparr>quantity := q\<rparr>]\<rparr>))
         \<and> (quantity item \<le> 1 \<longrightarrow>
              cart_decrease_onTap item s
                = Inr (s\<lparr>cartManager := removeItem (cartManager s) (id_c item)\<rparr>,
                       Some Item_removed_from_cart))
         \<and> (10 \<le> totalQuantity (cartManager s) \<longrightarrow>
              cart_increase_onTap item s = Inr (s, Some Only_have_10_products_allowed))"
proof -
  have "list_ex (\<lambda>x. id_c x = id_c item) (items (cartManager s))"
    using assms unfolding list_ex_iff by blast
  from firstWhere_first [OF this] obtain k where
    k: "k < length (items (cartManager s))"
       "firstWhere (\<lambda>x. id_c x = id_c item) (items (cartManager s)) = Inr k"
       "id_c (items (cartManager s) ! k) = id_c item"
       "\<forall>j<k. id_c (items (cartManager s) ! j) \<noteq> id_c item"
    by blast
  have u: "updateQuantity (cartManager s) (id_c item) q
             = Inr ((cartManager s)\<lparr>items := (items (cartManager s))
                      [k := (items (cartManager s) ! k)\<lparr>quantity := q\<rparr>]\<rparr>)"
    using k(2) by (simp add: updateQuantity_def)
  have 1: "\<exists>k<length (items (cartManager s)).
            id_c (items (cartManager s) ! k) = id_c item
            \<and> (\<forall>j<k. id_c (items (cartManager s) ! j) \<noteq> id_c item)
            \<and> updateQuantity (cartManager s) (id_c item) q
                = Inr ((cartManager s)\<lparr>items := (items (cartManager s))
                         [k := (items (cartManager s) ! k)\<lparr>quantity := q\<rparr>]\<rparr>)"
    using k(1,3,4) u by blast
  have 2: "quantity item \<le> 1 \<longrightarrow>
              cart_decrease_onTap item s
                = Inr (s\<lparr>cartManager := removeItem (cartManager s) (id_c item)\<rparr>,
                       Some Item_removed_from_cart)"
    by (simp add: cart_decrease_onTap_def)
  have 3: "10 \<le> totalQuantity (cartManager s) \<longrightarrow>
              cart_increase_onTap item s = Inr (s, Some Only_have_10_products_allowed)"
    by (simp add: cart_increase_onTap_def)
  show ?thesis using 1 2 3 by blast
qed

theorem quantity_controls_witness:
  "let tea = \<lparr>id_c = ''p1'', name = ''Tea'', price = Finite 10, discountPrice = Finite 0,
                quantity = 1, image_c = None\<rparr>;
       mug = \<lparr>id_c = ''p2'', name = ''Mug'', price = Finite 20, discountPrice = Finite 15,
                quantity = 1, image_c = None\<rparr>;
       again = tea\<lparr>name := ''Tea again'', quantity := 5\<rparr>;
       s = initial_state\<lparr>cartManager := CartManager\<lparr>items := [mug, tea, again]\<rparr>\<rparr>;
       full = initial_state\<lparr>cartManager := CartManager\<lparr>items := [tea\<lparr>quantity := 10\<rparr>]\<rparr>\<rparr>
   in tea \<in> set (items (cartManager s))
      \<and> updateQuantity (cartManager s) ''p1'' (- 4)
          = Inr (CartManager\<lparr>items := [mug, tea\<lparr>quantity := - 4\<rparr>, again]\<rparr>)
      \<and> updateQuantity (cartManager s) ''p1'' 11
          = Inr (CartManager\<lparr>items := [mug, tea\<lparr>quantity := 11\<rparr>, again]\<rparr>)
      \<and> quantity tea \<le> 1
      \<and> cart_decrease_onTap tea s
          = Inr (s\<lparr>cartManager := CartManager\<lparr>items := [mug]\<rparr>\<rparr>, Some Item_removed_from_cart)
      \<and> 10 \<le> totalQuantity (cartManager full)
      \<and> cart_increase_onTap (tea\<lparr>quantity := 10\<rparr>) full
          = Inr (full, Some Only_have_10_products_allowed)"
proof -
  define tea where "tea = \<lparr>id_c = ''p1'', name = ''Tea'', price = Finite 10,
     discountPrice = Finite 0, quantity = 1, image_c = None\<rparr>"
  define mug where "mug = \<lparr>id_c = ''p2'', name = ''Mug'', price = Finite 20,
     discountPrice = Finite 15, quantity = 1, image_c = None\<rparr>"
  define again where "again = tea\<lparr>name := ''Tea again'', quantity := 5\<rparr>"
  define s where "s = initial_state\<lparr>cartManager := CartManager\<lparr>items := [mug, tea, again]\<rparr>\<rparr>"
  define full where
    "full = initial_state\<lparr>cartManager := CartManager\<lparr>items := [tea\<lparr>quantity := 10\<rparr>]\<rparr>\<rparr>"
  have ids: "id_c tea = ''p1''" "id_c mug = ''p2''" "id_c again = ''p1''"
    by (simp_all add: tea_def mug_def again_def)
  have a: "tea \<in> set (items (cartManager s))" by (simp add: s_def)
  have b: "tea\<lparr>quantity := 10\<rparr> \<in> set (items (cartManager full))" by (simp add: full_def)
  have c: "10 \<le> totalQuantity (cartManager full)" by (simp add: full_def totalQuantity_def)
  have d: "quantity tea \<le> 1" by (simp add: tea_def)
  have e: "removeItem (cartManager s) ''p1'' = CartManager\<lparr>items := [mug]\<rparr>"
    by (simp add: s_def removeItem_def ids)
  have f: "updateQuantity (cartManager s) ''p1'' q
             = Inr (CartManager\<lparr>items := [mug, tea\<lparr>quantity := q\<rparr>, again]\<rparr>)" for q
    by (simp add: s_def updateQuantity_def ids)
  have dec: "cart_decrease_onTap tea s
          = Inr (s\<lparr>cartManager := CartManager\<lparr>items := [mug]\<rparr>\<rparr>, Some Item_removed_from_cart)"
    using quantity_controls [OF a, of "- 4"] d e ids by simp
  have inc: "cart_increase_onTap (tea\<lparr>quantity := 10\<rparr>) full
          = Inr (full, Some Only_have_10_products_allowed)"
    using quantity_controls [OF b, of 0] c by simp
  show ?thesis
    using a d c f [of "- 4"] f [of 11] dec inc
    unfolding tea_def [symmetric] mug_def [symmetric] again_def [symmetric]
      s_def [symmetric] full_def [symmetric] Let_def
    by simp
qed

section \<open>Parsing a price string\<close>

lemma dropWhile_none: "list_all (\<lambda>x. \<not> P x) xs \<Longrightarrow> dropWhile P xs = xs"
  by (cases xs) simp_all

lemma takeWhile_none: "list_all (\<lambda>x. \<not> P x) xs \<Longrightarrow> takeWhile P xs = []"
  by (cases xs) simp_all

lemma trim_no_space: "list_all (\<lambda>x. \<not> is_space x) s \<Longrightarrow> trim s = s"
  by (simp add: trim_def dropWhile_none list_all_iff)

lemma tryParse_letters:
  assumes "list_all (\<lambda>u. u = 100 \<or> u = 46) s"
  shows "tryParse s = None"
proof -
  have sp: "list_all (\<lambda>x. \<not> is_space x) s"
    using assms by (auto simp: list_all_iff is_space_def)
  have dg: "list_all (\<lambda>x. \<not> is_digit x) s"
    using assms by (auto simp: list_all_iff is_digit_def)
  have t: "trim s = s" using sp by (rule trim_no_space)
  have sg: "\<not> startsWith s [45]" "\<not> startsWith s [43]"
    using assms by (cases s; auto)+
  have inf: "s \<noteq> units ''Infinity''" "s \<noteq> units ''NaN''"
    using assms by (auto simp: units_def)
  have ip: "takeWhile is_digit s = []" using dg by (rule takeWhile_none)
  have r1: "dropWhile is_digit s = s" using dg by (rule dropWhile_none)
  have fp: "takeWhile is_digit (tl s) = []"
    using dg by (cases s) (simp_all add: takeWhile_none)
  show ?thesis
    by (simp add: tryParse_def t sg inf ip r1 fp Let_def)
qed

lemma parsePrice_zero: "parsePrice priceString = Finite 0"
proof -
  have "list_all (\<lambda>u. u = 100 \<or> u = 46) (filter (\<lambda>u. u = 100 \<or> u = 46) priceString)"
    by (simp add: list_all_iff)
  then show ?thesis by (simp add: parsePrice_def tryParse_letters)
qed

lemma rnd_25_2: "rnd (25 / 2) = Finite (25 / 2)"
  using rnd_eqI [of "- 49" "25 / 2" 7036874417766400] by (simp add: pow2_def)

lemma tryParse_12_50: "tryParse (units ''12.50'') = Some (Finite (25 / 2))"
  by (simp add: tryParse_def units_def trim_def is_space_def is_digit_def exponent_part_def
      digits_value_def rnd_25_2 Let_def)

lemma contains_unit: "contains s [c] = (c \<in> set s)"
  by (induction s) auto

lemma detectCurrency_default:
  "list_all (\<lambda>u. u \<notin> set [8377, 36, 8364, 163, 165, 8361, 8381, 8358, 8360]) s
     \<Longrightarrow> detectCurrency s = [36]"
  by (auto simp: detectCurrency_def contains_unit list_all_iff)

text \<open>
  C3. The claim: parsing a price string gives the numeric amount of a parseable string,
  zero for an unparseable one, and the currency symbol \<open>$\<close> when none is detected.
  The comment above \<^verbatim>\<open>parsePrice\<close> says that it removes all characters but the digits
  and the point; its pattern \<^verbatim>\<open>[^d.]\<close> keeps the letter \<open>d\<close> and the point and removes
  the digits. Of the price string \<open>12.50\<close> the point alone is left, which
  \<^verbatim>\<open>double.tryParse\<close> rejects, and the result is zero where the amount is 12.5
  (\<open>parsePrice_zero\<close>: the result is zero for every string). The fallbacks hold:
  \<open>detectCurrency_default\<close>.
\<close>

theorem parsePrice_deletes_the_digits:
  "parsePrice (units ''12.50'') = Finite 0
   \<and> tryParse (units ''12.50'') = Some (Finite (25 / 2))
   \<and> filter (\<lambda>u. u = 100 \<or> u = 46) (units ''12.50'') = units ''.''"
  by (simp add: parsePrice_zero tryParse_12_50) (simp add: units_def)

section \<open>Realtime events and the reload\<close>

lemma update_type_home_page:
  "update_type lib [(''type'', JString ''home-page''), (''data'', data)] = Some ''home-page''"
  by (simp add: update_type_def toString_opt_def toString_def lookup_def toLowerCase_def lower_char_def)

text \<open>
  C4, as the claim states it: a reload is triggered if and only if the kind of the event
  is one of \<open>dynamic-update\<close>, \<open>home-page\<close>, \<open>configuration-update\<close>,
  \<open>admin-specific-update\<close>, \<open>splash-screen\<close>, \<open>app-info\<close>, \<open>test-update\<close>. An event
  \<open>configuration-update\<close> is of these kinds and triggers nothing; neither does an
  event \<open>dynamic-update\<close> whose payload has no field \<open>type\<close>.
\<close>

theorem refetch_allow_list_counterexample:
  "''configuration-update'' \<in> set ApiService_update_events
   \<and> on_socket_event \<lparr>render = (\<lambda>v. ''''), list_sort = (\<lambda>c xs. xs), int_parse = (\<lambda>t. None)\<rparr>
        ''configuration-update'' (JMap [(''type'', JString ''configuration-update'')]) initial_state
       = initial_state
   \<and> on_socket_event \<lparr>render = (\<lambda>v. ''''), list_sort = (\<lambda>c xs. xs), int_parse = (\<lambda>t. None)\<rparr>
        ''dynamic-update'' (JMap [(''page'', JString ''home'')]) initial_state
       = initial_state"
  by (simp add: ApiService_update_events_def on_socket_event_def DynamicAppSync_on_def
      on_update_def update_type_def toString_opt_def lookup_def initial_state_def)

text \<open>
  C4, amended. While the page is mounted and the stream of updates is open, an incoming
  event triggers a full reload (one \<^verbatim>\<open>http.get\<close>) if and only if its kind is
  \<open>home-page\<close>, or its kind is \<open>dynamic-update\<close> and its payload is a map whose field
  \<open>type\<close>, in lower case, is \<open>home-page\<close> or \<open>dynamic-update\<close>. Every other event, of
  the other five kinds or of an unknown kind, triggers no reload and leaves the whole
  state as it is.
\<close>

theorem refetch_iff:
  "on_socket_event lib event data s =
     (if mounted s \<and> \<not> updateController_isClosed s
         \<and> (event = ''home-page''
              \<or> event = ''dynamic-update''
                 \<and> (\<exists>m. data = JMap m
                       \<and> (update_type lib m = Some ''home-page''
                            \<or> update_type lib m = Some ''dynamic-update'')))
      then loadDynamicProductData_begin s else s)
   \<and> issued_gets (loadDynamicProductData_begin s) = Suc (issued_gets s)"
proof -
  have 1: "issued_gets (loadDynamicProductData_begin s) = Suc (issued_gets s)"
    by (simp add: loadDynamicProductData_begin_def)
  have 2: "on_socket_event lib event data s =
     (if mounted s \<and> \<not> updateController_isClosed s
         \<and> (event = ''home-page''
              \<or> event = ''dynamic-update''
                 \<and> (\<exists>m. data = JMap m
                       \<and> (update_type lib m = Some ''home-page''
                            \<or> update_type lib m = Some ''dynamic-update'')))
      then loadDynamicProductData_begin s else s)"
  proof (cases "event = ''home-page''")
    case True
    then show ?thesis
      by (simp add: on_socket_event_def DynamicAppSync_on_def on_update_def update_type_home_page)
  next
    case False
    show ?thesis
    proof (cases "event = ''dynamic-update''")
      case True
      then show ?thesis
        by (cases data) (simp_all add: on_socket_event_def DynamicAppSync_on_def on_update_def)
    next
      case False
      with \<open>event \<noteq> ''home-page''\<close> show ?thesis
        by (simp add: on_socket_event_def DynamicAppSync_on_def)
    qed
  qed
  show ?thesis using 1 2 by simp
qed

theorem refetch_iff_witness:
  "on_socket_event \<lparr>render = (\<lambda>v. ''''), list_sort = (\<lambda>c xs. xs), int_parse = (\<lambda>t. None)\<rparr>
      ''home-page'' JNull initial_state
     = loadDynamicProductData_begin initial_state
   \<and> on_socket_event \<lparr>render = (\<lambda>v. ''''), list_sort = (\<lambda>c xs. xs), int_parse = (\<lambda>t. None)\<rparr>
      ''foo'' JNull initial_state
     = initial_state
   \<and> issued_gets (loadDynamicProductData_begin initial_state) = 1"
  using refetch_iff [of "\<lparr>render = (\<lambda>v. ''''), list_sort = (\<lambda>c xs. xs), int_parse = (\<lambda>t. None)\<rparr>"
      "''home-page''" JNull initial_state]
    refetch_iff [of "\<lparr>render = (\<lambda>v. ''''), list_sort = (\<lambda>c xs. xs), int_parse = (\<lambda>t. None)\<rparr>"
      "''foo''" JNull initial_state]
  by (simp add: initial_state_def)

lemma begin_keeps_flags:
  "mounted (loadDynamicProductData_begin s) = mounted s"
  "updateController_isClosed (loadDynamicProductData_begin s) = updateController_isClosed s"
  by (simp_all add: loadDynamicProductData_begin_def)

lemma begin_counts:
  "issued_gets (loadDynamicProductData_begin s) = Suc (issued_gets s)"
  "pending_gets (loadDynamicProductData_begin s) = Suc (pending_gets s)"
  by (simp_all add: loadDynamicProductData_begin_def)

lemma refetching_event:
  assumes "mounted s" "\<not> updateController_isClosed s"
    and "event = ''home-page''
         \<or> event = ''dynamic-update''
            \<and> (\<exists>m. data = JMap m
                  \<and> (update_type lib m = Some ''home-page''
                       \<or> update_type lib m = Some ''dynamic-update''))"
  shows "on_socket_event lib event data s = loadDynamicProductData_begin s"
  using assms
  by (auto simp: on_socket_event_def DynamicAppSync_on_def on_update_def update_type_home_page)

text \<open>
  C5, as the claim states it: a reload in flight absorbs further events, so three
  qualifying events that arrive before the first reload completes issue one reload.
  They issue three.
\<close>

theorem coalescing_counterexample:
  "let lib = \<lparr>render = (\<lambda>v. ''''), list_sort = (\<lambda>c xs. xs), int_parse = (\<lambda>t. None)\<rparr>;
       update = SocketEvent ''dynamic-update'' (JMap [(''type'', JString ''dynamic-update'')]);
       s = run lib initial_state [update, update, update]
   in pending_gets initial_state = 0 \<and> issued_gets initial_state = 0
      \<and> issued_gets s = 3 \<and> pending_gets s = 3"
  by (simp add: Let_def run_def on_socket_event_def DynamicAppSync_on_def on_update_def
      update_type_def toString_opt_def toString_def lookup_def toLowerCase_def lower_char_def
      loadDynamicProductData_begin_def initial_state_def)

text \<open>
  C5, amended. Reloads are not coalesced: while the page is mounted and the stream is
  open, every qualifying event issues its own reload, whether or not one is in flight.
  One such event issues exactly one reload, and as many such events as arrive before a
  reload completes issue that many reloads, all in flight together. The qualifying events
  are those that trigger a reload: of kind \<open>home-page\<close>, or of kind \<open>dynamic-update\<close>
  with a map as payload whose field \<open>type\<close>, in lower case, is \<open>home-page\<close> or
  \<open>dynamic-update\<close>.
\<close>

theorem every_event_refetches:
  assumes "list_all (\<lambda>occ. \<exists>event data. occ = SocketEvent event data
              \<and> (event = ''home-page''
                   \<or> event = ''dynamic-update''
                      \<and> (\<exists>m. data = JMap m
                            \<and> (update_type lib m = Some ''home-page''
                                 \<or> update_type lib m = Some ''dynamic-update'')))) os"
    and "mounted s" "\<not> updateController_isClosed s"
  shows "issued_gets (run lib s os) = issued_gets s + length os
         \<and> pending_gets (run lib s os) = pending_gets s + length os"
  using assms unfolding run_def
proof (induction os arbitrary: s)
  case Nil
  show ?case by simp
next
  case (Cons occ os)
  from Cons.prems(1) obtain event data where
    occ: "occ = SocketEvent event data"
    and q: "event = ''home-page''
            \<or> event = ''dynamic-update''
               \<and> (\<exists>m. data = JMap m
                     \<and> (update_type lib m = Some ''home-page''
                          \<or> update_type lib m = Some ''dynamic-update''))"
    by auto
  have st: "step lib s occ = loadDynamicProductData_begin s"
    using refetching_event [OF Cons.prems(2,3) q] by (simp add: occ)
  have "issued_gets (foldl (step lib) (loadDynamicProductData_begin s) os)
          = issued_gets (loadDynamicProductData_begin s) + length os
        \<and> pending_gets (foldl (step lib) (loadDynamicProductData_begin s) os)
          = pending_gets (loadDynamicProductData_begin s) + length os"
    using Cons.prems by (intro Cons.IH) (simp_all add: begin_keeps_flags)
  then show ?case by (simp add: st begin_counts)
qed

theorem every_event_refetches_witness:
  "let lib = \<lparr>render = (\<lambda>v. ''''), list_sort = (\<lambda>c xs. xs), int_parse = (\<lambda>t. None)\<rparr>;
       one = run lib initial_state [SocketEvent ''home-page'' JNull];
       three = run lib initial_state
                 [SocketEvent ''home-page'' JNull,
                  SocketEvent ''dynamic-update'' (JMap [(''type'', JString ''dynamic-update'')]),
                  SocketEvent ''dynamic-update'' (JMap [(''type'', JString ''Home-Page'')])]
   in mounted initial_state \<and> \<not> updateController_isClosed initial_state
      \<and> update_type lib [(''type'', JString ''dynamic-update'')] = Some ''dynamic-update''
      \<and> update_type lib [(''type'', JString ''Home-Page'')] = Some ''home-page''
      \<and> pending_gets initial_state = 0 \<and> issued_gets initial_state = 0
      \<and> issued_gets one = 1 \<and> pending_gets one = 1
      \<and> issued_gets three = 3 \<and> pending_gets three = 3"
proof -
  define lib where "lib = \<lparr>render = (\<lambda>v. ''''), list_sort = (\<lambda>c xs. xs), int_parse = (\<lambda>t. None)\<rparr>"
  have m: "mounted initial_state" "\<not> updateController_isClosed initial_state"
    "pending_gets initial_state = 0" "issued_gets initial_state = 0"
    by (simp_all add: initial_state_def)
  have t: "update_type lib [(''type'', JString ''dynamic-update'')] = Some ''dynamic-update''"
    "update_type lib [(''type'', JString ''Home-Page'')] = Some ''home-page''"
    unfolding lib_def by code_simp+
  have 1: "issued_gets (run lib initial_state [SocketEvent ''home-page'' JNull]) = 1
     \<and> pending_gets (run lib initial_state [SocketEvent ''home-page'' JNull]) = 1"
    using every_event_refetches [of lib "[SocketEvent ''home-page'' JNull]" initial_state] m
    by simp
  have 3: "issued_gets (run lib initial_state
              [SocketEvent ''home-page'' JNull,
               SocketEvent ''dynamic-update'' (JMap [(''type'', JString ''dynamic-update'')]),
               SocketEvent ''dynamic-update'' (JMap [(''type'', JString ''Home-Page'')])]) = 3
     \<and> pending_gets (run lib initial_state
              [SocketEvent ''home-page'' JNull,
               SocketEvent ''dynamic-update'' (JMap [(''type'', JString ''dynamic-update'')]),
               SocketEvent ''dynamic-update'' (JMap [(''type'', JString ''Home-Page'')])]) = 3"
    using every_event_refetches [of lib
        "[SocketEvent ''home-page'' JNull,
          SocketEvent ''dynamic-update'' (JMap [(''type'', JString ''dynamic-update'')]),
          SocketEvent ''dynamic-update'' (JMap [(''type'', JString ''Home-Page'')])]"
        initial_state] m t
    by simp
  show ?thesis using m t 1 3 unfolding lib_def [symmetric] Let_def by simp
qed

section \<open>The configuration and the local state\<close>

lemma apply_config_local:
  "cartManager (apply_config lib c s) = cartManager s"
  "wishlistManager (apply_config lib c s) = wishlistManager s"
  "searchQuery (apply_config lib c s) = searchQuery s"
  by (simp_all add: apply_config_def filterProducts_def Let_def)

lemma loadDynamicAppConfig_local:
  "cartManager (loadDynamicAppConfig lib r s) = cartManager s"
  "wishlistManager (loadDynamicAppConfig lib r s) = wishlistManager s"
  "searchQuery (loadDynamicAppConfig lib r s) = searchQuery s"
  by (simp_all add: loadDynamicAppConfig_def apply_config_local
      split: http_result.split option.split sum.split)

lemma loadDynamicProductData_complete_local:
  "cartManager (loadDynamicProductData_complete r s) = cartManager s"
  "wishlistManager (loadDynamicProductData_complete r s) = wishlistManager s"
  "searchQuery (loadDynamicProductData_complete r s) = searchQuery s"
  by (simp_all add: loadDynamicProductData_complete_def split: sum.split)

lemma on_socket_event_local:
  "cartManager (on_socket_event lib e d s) = cartManager s"
  "wishlistManager (on_socket_event lib e d s) = wishlistManager s"
  "searchQuery (on_socket_event lib e d s) = searchQuery s"
  by (simp_all add: on_socket_event_def on_update_def loadDynamicProductData_begin_def
      split: option.split)

lemma step_local:
  "cartManager (step lib s occ) = cartManager s"
  "wishlistManager (step lib s occ) = wishlistManager s"
  "searchQuery (step lib s occ) = searchQuery s"
  by (cases occ; simp add: on_socket_event_local loadDynamicProductData_complete_local)+

lemma run_local:
  "cartManager (run lib s os) = cartManager s
   \<and> wishlistManager (run lib s os) = wishlistManager s
   \<and> searchQuery (run lib s os) = searchQuery s"
  unfolding run_def by (induction os arbitrary: s) (simp_all add: step_local)

text \<open>
  C6. No fetch of the configuration changes the cart, the wishlist or the search query:
  not the load of the home page (its start and its completion, at the first load and at
  a pull-to-refresh), not the reload of the products (its start and its completion), and
  no sequence of socket events and completions, whatever the outcome of the request.
\<close>

theorem config_reload_keeps_local_state:
  "(cartManager (loadDynamicData_begin s), wishlistManager (loadDynamicData_begin s),
      searchQuery (loadDynamicData_begin s))
     = (cartManager s, wishlistManager s, searchQuery s)
   \<and> (cartManager (loadDynamicData_complete lib r s),
        wishlistManager (loadDynamicData_complete lib r s),
        searchQuery (loadDynamicData_complete lib r s))
     = (cartManager s, wishlistManager s, searchQuery s)
   \<and> (cartManager (loadDynamicProductData_begin s),
        wishlistManager (loadDynamicProductData_begin s),
        searchQuery (loadDynamicProductData_begin s))
     = (cartManager s, wishlistManager s, searchQuery s)
   \<and> (cartManager (loadDynamicProductData_complete r s),
        wishlistManager (loadDynamicProductData_complete r s),
        searchQuery (loadDynamicProductData_complete r s))
     = (cartManager s, wishlistManager s, searchQuery s)
   \<and> (cartManager (run lib s os), wishlistManager (run lib s os), searchQuery (run lib s os))
     = (cartManager s, wishlistManager s, searchQuery s)"
  by (simp add: loadDynamicData_begin_def loadDynamicData_complete_def Let_def
      loadDynamicAppConfig_local loadDynamicProductData_begin_def
      loadDynamicProductData_complete_local run_local)

section \<open>Unknown widgets\<close>

text \<open>
  C7. A widget descriptor whose name is none of the nine \<^verbatim>\<open>case\<close> labels resolves to
  the empty render unit \<^verbatim>\<open>SizedBox.shrink()\<close> and does not fail, whatever the name and
  the rest of the descriptor are: the \<^verbatim>\<open>default\<close> branch takes every other name.
\<close>

theorem unknown_widget_is_empty:
  "toString_or_empty lib (lookup widgetData ''name'') \<notin> set widget_cases \<Longrightarrow>
     buildHomeWidgetFromConfig lib body widgetData s = Inr SizedBox_shrink"
  by (simp add: buildHomeWidgetFromConfig_def Let_def)

theorem unknown_widget_is_empty_witness:
  "toString_or_empty \<lparr>render = (\<lambda>v. ''''), list_sort = (\<lambda>c xs. xs), int_parse = (\<lambda>t. None)\<rparr>
      (lookup [(''name'', JString ''UnknownWidget''), (''properties'', JMap [])] ''name'')
     \<notin> set widget_cases
   \<and> buildHomeWidgetFromConfig
        \<lparr>render = (\<lambda>v. ''''), list_sort = (\<lambda>c xs. xs), int_parse = (\<lambda>t. None)\<rparr>
        (\<lambda>name props s. Inl TypeError :: error + unit)
        [(''name'', JString ''UnknownWidget''), (''properties'', JMap [])] initial_state
     = Inr SizedBox_shrink"
proof -
  have a: "toString_or_empty \<lparr>render = (\<lambda>v. ''''), list_sort = (\<lambda>c xs. xs), int_parse = (\<lambda>t. None)\<rparr>
      (lookup [(''name'', JString ''UnknownWidget''), (''properties'', JMap [])] ''name'')
     \<notin> set widget_cases"
    by (simp add: toString_or_empty_def toString_def lookup_def widget_cases_def)
  from unknown_widget_is_empty [OF a] a show ?thesis by simp
qed

end
